theory Spec2Isabelle
  imports Main "HOL-Library.Word"
begin

section \<open>Python values\<close>

text \<open>
  The values that reach the vector-store manager come from \<^verbatim>\<open>json.load\<close>,
  \<^verbatim>\<open>yaml.safe_load\<close> and the database driver. A float is kept as the 64 bits of its
  IEEE double; a dictionary is an association list in insertion order with string keys;
  \<open>VLob\<close> is a database LOB object (the only value with a \<^verbatim>\<open>read\<close> method) and
  \<open>VObj\<close> any other object, told apart by a number.
\<close>

datatype pyval =
    VNone
  | VBool bool
  | VInt int
  | VFloat "64 word"
  | VStr string
  | VList "pyval list"
  | VDict "(string \<times> pyval) list"
  | VLob string
  | VObj nat

type_synonym pydict = "(string \<times> pyval) list"

datatype exn =
    ValueError string
  | KeyError string
  | AttributeError string
  | IndexError
  | LibraryError string

text \<open>Python truth value testing, as \<^verbatim>\<open>if x:\<close> and \<^verbatim>\<open>not x\<close> use it.\<close>

fun truthy :: "pyval \<Rightarrow> bool" where
  "truthy VNone = False"
| "truthy (VBool b) = b"
| "truthy (VInt i) = (i \<noteq> 0)"
| "truthy (VFloat f) = (f \<noteq> 0 \<and> f \<noteq> 0x8000000000000000)"
| "truthy (VStr s) = (s \<noteq> [])"
| "truthy (VList xs) = (xs \<noteq> [])"
| "truthy (VDict d) = (d \<noteq> [])"
| "truthy (VLob s) = True"
| "truthy (VObj n) = True"

text \<open>\<^verbatim>\<open>d[key] = value\<close>: an existing key keeps its place, a new key goes last.\<close>

fun dict_set :: "(string \<times> 'a) list \<Rightarrow> string \<Rightarrow> 'a \<Rightarrow> (string \<times> 'a) list" where
  "dict_set [] key v = [(key, v)]"
| "dict_set ((k, x) # d) key v = (if k = key then (k, v) # d else (k, x) # dict_set d key v)"

text \<open>\<^verbatim>\<open>d.get(key, default)\<close> and \<^verbatim>\<open>d[key]\<close>.\<close>

definition dict_get :: "pydict \<Rightarrow> string \<Rightarrow> pyval \<Rightarrow> pyval" where
  "dict_get d key dflt = (case map_of d key of None \<Rightarrow> dflt | Some v \<Rightarrow> v)"

definition dict_index :: "pydict \<Rightarrow> string \<Rightarrow> exn + pyval" where
  "dict_index d key = (case map_of d key of None \<Rightarrow> Inl (KeyError key) | Some v \<Rightarrow> Inr v)"

section \<open>The world outside the class\<close>

text \<open>
  Everything the class does goes through the database driver, the vector-store client
  and the Python runtime. Their answers are the fields of \<open>world\<close>; an answer
  \<open>Some msg\<close> or \<open>Inl msg\<close> is the exception the call raises. Each operation returns,
  beside its result, the list of the external calls it made, in order.

  Constructing a vector-store handle is a call into the client library. What the
  library's constructor does with the connection is the field \<open>oraclevs_init\<close>: for a
  table name, the SQL statements the constructor sends and the exception it ends with,
  if any.
\<close>

record document =
  page_content :: pyval
  metadata :: pyval

datatype yaml_file = NoFile | LoadError | Loaded pyval

datatype call =
    Connect pydict
  | OracleEmbeddingsNew pyval
  | OracleVSNew string string
  | AddTexts string "pyval list" "pydict list"
  | SimilaritySearch string string int
  | DeleteIds string "string list"
  | CursorNew
  | CursorExecute string
  | CursorExecuteBind string "pyval list"
  | CursorFetchone
  | CursorClose
  | Commit

record world =
  config_yaml :: yaml_file
  json_loads :: "string \<Rightarrow> pyval option"
  py_str :: "pyval \<Rightarrow> string"
  db_connect :: "pydict \<Rightarrow> string option"
  oraclevs_init :: "string \<Rightarrow> string list \<times> string option"
  vs_add_texts :: "string \<Rightarrow> pyval list \<Rightarrow> pydict list \<Rightarrow> string option"
  vs_similarity_search :: "string \<Rightarrow> string \<Rightarrow> int \<Rightarrow> string + document list"
  vs_delete :: "string \<Rightarrow> string list \<Rightarrow> string option"
  cur_execute :: "string \<Rightarrow> string option"
  cur_fetchone :: "string \<Rightarrow> pyval list option"

section \<open>OraDBVectorStore\<close>

datatype embedder = CustomEmbedding pyval | OracleEmbeddings pyval

record OracleVS =
  client :: pydict
  embedding_function :: embedder
  table_name :: string
  distance_strategy :: string

record OraDBVectorStore =
  connection :: pydict
  embeddings :: embedder
  collections :: "(string \<times> string) list"
  vector_stores :: "(string \<times> OracleVS) list"

subsection \<open>Configuration and construction\<close>

definition load_config :: "world \<Rightarrow> pyval" where
  "load_config w =
     (case config_yaml w of
        NoFile \<Rightarrow> VDict []
      | LoadError \<Rightarrow> VDict []
      | Loaded config \<Rightarrow> (if truthy config then config else VDict []))"

definition credentials_error :: string where
  "credentials_error =
     ''Oracle DB credentials not found in config.yaml. Please set ORACLE_DB_USERNAME, ORACLE_DB_PASSWORD, and ORACLE_DB_DSN.''"

definition connect_kwargs :: "pydict \<Rightarrow> pydict" where
  "connect_kwargs credentials =
     (let username = dict_get credentials ''ORACLE_DB_USERNAME'' (VStr ''ADMIN'');
          password = dict_get credentials ''ORACLE_DB_PASSWORD'' (VStr '''');
          dsn = dict_get credentials ''ORACLE_DB_DSN'' (VStr '''');
          wallet_path = dict_get credentials ''ORACLE_DB_WALLET_LOCATION'' VNone;
          wallet_password = dict_get credentials ''ORACLE_DB_WALLET_PASSWORD'' VNone
      in if \<not> truthy wallet_path
         then [(''user'', username), (''password'', password), (''dsn'', dsn)]
         else [(''user'', username), (''password'', password), (''dsn'', dsn),
               (''config_dir'', wallet_path), (''wallet_location'', wallet_path),
               (''wallet_password'', wallet_password)])"

definition default_embed_params :: pyval where
  "default_embed_params =
     VDict [(''provider'', VStr ''database''), (''model'', VStr ''ALL_MINILM_L12_V2'')]"

definition make_embeddings :: "world \<Rightarrow> pydict \<Rightarrow> pyval \<Rightarrow> embedder \<times> call list" where
  "make_embeddings w credentials embedding_fn =
     (if truthy embedding_fn then (CustomEmbedding embedding_fn, [])
      else
        let embed_params = dict_get credentials ''ORACLE_EMBEDDINGS_PARAMS'' default_embed_params;
            embed_params' =
              (case embed_params of
                 VStr s \<Rightarrow> (case json_loads w s of Some v \<Rightarrow> v | None \<Rightarrow> VStr s)
               | _ \<Rightarrow> embed_params)
        in (OracleEmbeddings embed_params', [OracleEmbeddingsNew embed_params']))"

definition collection_tables :: "(string \<times> string) list" where
  "collection_tables =
     [(''pdf_documents'', ''PDFCollection''),
      (''web_documents'', ''WebCollection''),
      (''repository_documents'', ''RepoCollection''),
      (''general_knowledge'', ''GeneralCollection'')]"

text \<open>
  The loop over \<^verbatim>\<open>self.collections.items()\<close> that fills \<^verbatim>\<open>self.vector_stores\<close>. Each
  \<^verbatim>\<open>OracleVS(...)\<close> runs the library's constructor: its statements go to the database
  through the shared connection, and an exception it raises ends the loop and leaves
  \<^verbatim>\<open>__init__\<close>.
\<close>

fun register_stores ::
  "world \<Rightarrow> pydict \<Rightarrow> embedder \<Rightarrow> (string \<times> string) list
     \<Rightarrow> (string \<times> OracleVS) list \<times> call list
     \<Rightarrow> (string + (string \<times> OracleVS) list) \<times> call list" where
  "register_stores w conn emb [] (stores, calls) = (Inr stores, calls)"
| "register_stores w conn emb ((name, table) # rest) (stores, calls) =
     (case snd (oraclevs_init w table) of
        Some e \<Rightarrow>
          (Inl e,
           calls @ OracleVSNew table ''EUCLIDEAN_DISTANCE'' #
             map CursorExecute (fst (oraclevs_init w table)))
      | None \<Rightarrow>
          register_stores w conn emb rest
            (dict_set stores name
               \<lparr>client = conn, embedding_function = emb, table_name = table,
                distance_strategy = ''EUCLIDEAN_DISTANCE''\<rparr>,
             calls @ OracleVSNew table ''EUCLIDEAN_DISTANCE'' #
               map CursorExecute (fst (oraclevs_init w table))))"

text \<open>
  \<^verbatim>\<open>__init__\<close>. The connection object is represented by the keyword arguments it was
  opened with. A configuration that is not a mapping has no \<^verbatim>\<open>get\<close>.
\<close>

definition init :: "world \<Rightarrow> pyval \<Rightarrow> (exn + OraDBVectorStore) \<times> call list" where
  "init w embedding_fn =
     (case load_config w of
        VDict credentials \<Rightarrow>
          if \<not> truthy (dict_get credentials ''ORACLE_DB_PASSWORD'' (VStr ''''))
             \<or> \<not> truthy (dict_get credentials ''ORACLE_DB_DSN'' (VStr ''''))
          then (Inl (ValueError credentials_error), [])
          else
            let kwargs = connect_kwargs credentials in
            (case db_connect w kwargs of
               Some e \<Rightarrow> (Inl (LibraryError e), [Connect kwargs])
             | None \<Rightarrow>
                 let (emb, emb_calls) = make_embeddings w credentials embedding_fn in
                 (case register_stores w kwargs emb collection_tables ([], []) of
                    (Inl e, vs_calls) \<Rightarrow>
                      (Inl (LibraryError e), Connect kwargs # emb_calls @ vs_calls)
                  | (Inr stores, vs_calls) \<Rightarrow>
                      (Inr \<lparr>connection = kwargs, embeddings = emb,
                            collections = collection_tables, vector_stores = stores\<rparr>,
                       Connect kwargs # emb_calls @ vs_calls)))
      | _ \<Rightarrow> (Inl (AttributeError ''get''), []))"

subsection \<open>Metadata sanitization and ingestion\<close>

fun is_scalar :: "pyval \<Rightarrow> bool" where
  "is_scalar (VStr s) = True"
| "is_scalar (VInt i) = True"
| "is_scalar (VFloat f) = True"
| "is_scalar (VBool b) = True"
| "is_scalar v = False"

fun is_list :: "pyval \<Rightarrow> bool" where
  "is_list (VList xs) = True"
| "is_list v = False"

definition sanitize_value :: "(pyval \<Rightarrow> string) \<Rightarrow> pyval \<Rightarrow> pyval" where
  "sanitize_value str v =
     (if is_scalar v then v
      else if is_list v then VStr (str v)
      else if v = VNone then VStr ''''
      else VStr (str v))"

fun sanitize_items :: "(pyval \<Rightarrow> string) \<Rightarrow> pydict \<Rightarrow> pydict \<Rightarrow> pydict" where
  "sanitize_items str [] sanitized = sanitized"
| "sanitize_items str ((key, v) # items) sanitized =
     sanitize_items str items (dict_set sanitized key (sanitize_value str v))"

definition sanitize_metadata :: "world \<Rightarrow> pyval \<Rightarrow> exn + pydict" where
  "sanitize_metadata w md =
     (case md of
        VDict items \<Rightarrow> Inr (sanitize_items (py_str w) items [])
      | _ \<Rightarrow> Inl (AttributeError ''items''))"

text \<open>A list comprehension whose element expression can raise.\<close>

fun comprehension :: "('a \<Rightarrow> exn + 'b) \<Rightarrow> 'a list \<Rightarrow> exn + 'b list" where
  "comprehension f [] = Inr []"
| "comprehension f (x # xs) =
     (case f x of
        Inl e \<Rightarrow> Inl e
      | Inr y \<Rightarrow> (case comprehension f xs of Inl e \<Rightarrow> Inl e | Inr ys \<Rightarrow> Inr (y # ys)))"

definition chunk_metadata :: "world \<Rightarrow> pydict \<Rightarrow> exn + pydict" where
  "chunk_metadata w chunk =
     (case dict_index chunk ''metadata'' of
        Inl e \<Rightarrow> Inl e
      | Inr md \<Rightarrow> sanitize_metadata w md)"

definition not_found :: "string \<Rightarrow> exn" where
  "not_found collection_name = ValueError (''Collection '' @ collection_name @ '' not found'')"

definition add_chunks_to_collection ::
  "world \<Rightarrow> OraDBVectorStore \<Rightarrow> pydict list \<Rightarrow> string \<Rightarrow> (exn + unit) \<times> call list" where
  "add_chunks_to_collection w self chunks collection_name =
     (if chunks = [] then (Inr (), [])
      else
        case map_of (vector_stores self) collection_name of
          None \<Rightarrow> (Inl (not_found collection_name), [])
        | Some store \<Rightarrow>
            (case comprehension (\<lambda>chunk. dict_index chunk ''text'') chunks of
               Inl e \<Rightarrow> (Inl e, [])
             | Inr texts \<Rightarrow>
                 (case comprehension (chunk_metadata w) chunks of
                    Inl e \<Rightarrow> (Inl e, [])
                  | Inr metadatas \<Rightarrow>
                      (case vs_add_texts w (table_name store) texts metadatas of
                         Some e \<Rightarrow> Inl (LibraryError e)
                       | None \<Rightarrow> Inr (),
                       [AddTexts (table_name store) texts metadatas]))))"

definition add_pdf_chunks ::
  "world \<Rightarrow> OraDBVectorStore \<Rightarrow> pydict list \<Rightarrow> string \<Rightarrow> (exn + unit) \<times> call list" where
  "add_pdf_chunks w self chunks document_id =
     add_chunks_to_collection w self chunks ''pdf_documents''"

definition add_web_chunks ::
  "world \<Rightarrow> OraDBVectorStore \<Rightarrow> pydict list \<Rightarrow> string \<Rightarrow> (exn + unit) \<times> call list" where
  "add_web_chunks w self chunks source_id =
     add_chunks_to_collection w self chunks ''web_documents''"

definition add_general_knowledge ::
  "world \<Rightarrow> OraDBVectorStore \<Rightarrow> pydict list \<Rightarrow> string \<Rightarrow> (exn + unit) \<times> call list" where
  "add_general_knowledge w self chunks source_id =
     add_chunks_to_collection w self chunks ''general_knowledge''"

definition add_repo_chunks ::
  "world \<Rightarrow> OraDBVectorStore \<Rightarrow> pydict list \<Rightarrow> string \<Rightarrow> (exn + unit) \<times> call list" where
  "add_repo_chunks w self chunks document_id =
     add_chunks_to_collection w self chunks ''repository_documents''"

subsection \<open>Queries\<close>

definition format_result :: "document \<Rightarrow> pyval" where
  "format_result doc = VDict [(''content'', page_content doc), (''metadata'', metadata doc)]"

definition query_collection ::
  "world \<Rightarrow> OraDBVectorStore \<Rightarrow> string \<Rightarrow> string \<Rightarrow> int \<Rightarrow> (exn + pyval list) \<times> call list" where
  "query_collection w self collection_name query n_results =
     (case map_of (vector_stores self) collection_name of
        None \<Rightarrow> (Inr [], [])
      | Some store \<Rightarrow>
          (case vs_similarity_search w (table_name store) query n_results of
             Inl e \<Rightarrow> Inl (LibraryError e)
           | Inr docs \<Rightarrow> Inr (map format_result docs),
           [SimilaritySearch (table_name store) query n_results]))"

definition query_pdf_collection ::
  "world \<Rightarrow> OraDBVectorStore \<Rightarrow> string \<Rightarrow> int \<Rightarrow> (exn + pyval list) \<times> call list" where
  "query_pdf_collection w self query n_results =
     query_collection w self ''pdf_documents'' query n_results"

definition query_web_collection ::
  "world \<Rightarrow> OraDBVectorStore \<Rightarrow> string \<Rightarrow> int \<Rightarrow> (exn + pyval list) \<times> call list" where
  "query_web_collection w self query n_results =
     query_collection w self ''web_documents'' query n_results"

definition query_general_collection ::
  "world \<Rightarrow> OraDBVectorStore \<Rightarrow> string \<Rightarrow> int \<Rightarrow> (exn + pyval list) \<times> call list" where
  "query_general_collection w self query n_results =
     query_collection w self ''general_knowledge'' query n_results"

definition query_repo_collection ::
  "world \<Rightarrow> OraDBVectorStore \<Rightarrow> string \<Rightarrow> int \<Rightarrow> (exn + pyval list) \<times> call list" where
  "query_repo_collection w self query n_results =
     query_collection w self ''repository_documents'' query n_results"

subsection \<open>Deletion\<close>

text \<open>\<open>ids\<close> is \<^verbatim>\<open>Optional[List[str]]\<close>; \<^verbatim>\<open>elif ids:\<close> is false for None and for [].\<close>

definition delete_documents ::
  "world \<Rightarrow> OraDBVectorStore \<Rightarrow> string \<Rightarrow> string list option \<Rightarrow> bool
     \<Rightarrow> (exn + unit) \<times> call list" where
  "delete_documents w self collection_name ids delete_all =
     (case map_of (vector_stores self) collection_name of
        None \<Rightarrow> (Inl (not_found collection_name), [])
      | Some store \<Rightarrow>
          if delete_all then
            (case map_of (collections self) collection_name of
               None \<Rightarrow> (Inr (), [])
             | Some table \<Rightarrow>
                 if table = [] then (Inr (), [])
                 else
                   let sql = ''TRUNCATE TABLE '' @ table in
                   (case cur_execute w sql of
                      Some e \<Rightarrow> (Inl (LibraryError e), [CursorNew, CursorExecute sql])
                    | None \<Rightarrow> (Inr (), [CursorNew, CursorExecute sql, Commit])))
          else
            (case ids of
               None \<Rightarrow> (Inr (), [])
             | Some [] \<Rightarrow> (Inr (), [])
             | Some (i # is) \<Rightarrow>
                 (case vs_delete w (table_name store) (i # is) of
                    Some e \<Rightarrow> Inl (LibraryError e)
                  | None \<Rightarrow> Inr (),
                  [DeleteIds (table_name store) (i # is)])))"

subsection \<open>Row count and latest row\<close>

definition get_collection_count ::
  "world \<Rightarrow> OraDBVectorStore \<Rightarrow> string \<Rightarrow> pyval \<times> call list" where
  "get_collection_count w self collection_name =
     (case map_of (collections self) collection_name of
        None \<Rightarrow> (VInt 0, [])
      | Some table \<Rightarrow>
          if table = [] then (VInt 0, [])
          else
            let sql = ''SELECT COUNT(*) FROM '' @ table in
            (case cur_execute w sql of
               Some e \<Rightarrow> (VInt 0, [CursorNew, CursorExecute sql])
             | None \<Rightarrow>
                 (case cur_fetchone w sql of
                    None \<Rightarrow> VInt 0
                  | Some [] \<Rightarrow> VInt 0
                  | Some (count # cols) \<Rightarrow> count,
                  [CursorNew, CursorExecute sql, CursorFetchone, CursorClose])))"

text \<open>\<^verbatim>\<open>hasattr(metadata, 'read')\<close> holds for a LOB only, whose \<^verbatim>\<open>read()\<close> gives its text.\<close>

fun read_lob :: "pyval \<Rightarrow> pyval" where
  "read_lob (VLob s) = VStr s"
| "read_lob v = v"

definition get_latest_chunk ::
  "world \<Rightarrow> OraDBVectorStore \<Rightarrow> string \<Rightarrow> pydict \<times> call list" where
  "get_latest_chunk w self collection_name =
     (case map_of (collections self) collection_name of
        None \<Rightarrow> ([], [])
      | Some table \<Rightarrow>
          if table = [] then ([], [])
          else
            let sql = ''SELECT text, metadata FROM '' @ table @ '' WHERE ROWNUM <= 1'' in
            (case cur_execute w sql of
               Some e \<Rightarrow> ([], [CursorNew, CursorExecute sql])
             | None \<Rightarrow>
                 (case cur_fetchone w sql of
                    None \<Rightarrow> []
                  | Some [] \<Rightarrow> []
                  | Some [text] \<Rightarrow> []
                  | Some (text # md # cols) \<Rightarrow>
                      [(''content'', text), (''metadata'', read_lob md)],
                  [CursorNew, CursorExecute sql, CursorFetchone, CursorClose])))"




section \<open>The menu-driven CLI\<close>

text \<open>
  \<^verbatim>\<open>agent_cli.py\<close> reads answers from the terminal, looks at the file system and runs
  other scripts. A menu function takes the values its \<^verbatim>\<open>Prompt.ask\<close> calls return
  and gives back what it did, in order, and how it ended: \<open>Inr\<close> when it returns,
  \<open>Inl\<close> with the exception's text when an exception leaves it. \<open>path_kind\<close> is what
  the file system holds at a path: \<^verbatim>\<open>os.path.exists\<close> is true unless it is \<open>Missing\<close>,
  \<^verbatim>\<open>os.path.isdir\<close> is true when it is a \<open>Directory\<close>.

  \<^verbatim>\<open>console.print\<close> reads its text as console markup. The field \<open>markup_error\<close> is the
  console library's verdict on a text: \<open>Some msg\<close> when rendering it raises a markup
  error with that message (nothing is printed then), \<open>None\<close> when it prints.
\<close>

datatype event =
    OsSystem string
  | ConsolePrint string
  | ConsolePanel string
  | PromptAsk string
  | InputWait string
  | SubprocessRun "string list"

datatype proc_result = Completed int string string | RunRaised string

datatype path_kind = Missing | RegularFile | Directory

record shell =
  os_name :: string
  getcwd :: string
  path_at :: "string \<Rightarrow> path_kind"
  subprocess_run :: "string list \<Rightarrow> proc_result"
  markup_error :: "string \<Rightarrow> string option"

type_synonym 'a io = "(string + 'a) \<times> event list"

text \<open>One statement after another: what follows a raised exception does not happen.\<close>

definition io_then :: "'a io \<Rightarrow> 'b io \<Rightarrow> 'b io" where
  "io_then a b = (case fst a of Inl e \<Rightarrow> (Inl e, snd a) | Inr x \<Rightarrow> (fst b, snd a @ snd b))"

fun io_all :: "unit io list \<Rightarrow> unit io" where
  "io_all [] = (Inr (), [])"
| "io_all (a # rest) = io_then a (io_all rest)"

definition emit :: "event \<Rightarrow> unit io" where
  "emit e = (Inr (), [e])"

definition ignore_result :: "'a io \<Rightarrow> unit io" where
  "ignore_result a = io_then a (Inr (), [])"

definition console_print :: "shell \<Rightarrow> string \<Rightarrow> unit io" where
  "console_print sh text =
     (case markup_error sh text of
        Some msg \<Rightarrow> (Inl msg, [])
      | None \<Rightarrow> (Inr (), [ConsolePrint text]))"

definition console_panel :: "shell \<Rightarrow> string \<Rightarrow> unit io" where
  "console_panel sh text =
     (case markup_error sh text of
        Some msg \<Rightarrow> (Inl msg, [])
      | None \<Rightarrow> (Inr (), [ConsolePanel text]))"

definition path_exists :: "shell \<Rightarrow> string \<Rightarrow> bool" where
  "path_exists sh p = (path_at sh p \<noteq> Missing)"

definition path_isdir :: "shell \<Rightarrow> string \<Rightarrow> bool" where
  "path_isdir sh p = (path_at sh p = Directory)"

definition clear_screen :: "shell \<Rightarrow> unit io" where
  "clear_screen sh = emit (OsSystem (if os_name sh = ''nt'' then ''cls'' else ''clear''))"

definition title :: string where
  "title = ''AGENTIC RAG SYSTEM CLI / Oracle AI Vector Search + Ollama (Gemma 3)''"

definition print_header :: "shell \<Rightarrow> unit io" where
  "print_header sh =
     io_all
       [clear_screen sh,
        console_panel sh title,
        console_print sh (''[dim]Working Directory: '' @ getcwd sh @ ''[/dim]'' @ [CHR 0x0A])]"

fun join_space :: "string list \<Rightarrow> string" where
  "join_space [] = []"
| "join_space [x] = x"
| "join_space (x # y # ys) = x @ '' '' @ join_space (y # ys)"

text \<open>
  \<^verbatim>\<open>run_command\<close>: the command line is printed before the \<^verbatim>\<open>try\<close>; the subprocess and
  the prints of its outcome are inside it, and the handler prints the exception's text
  and returns False.
\<close>

definition run_attempt :: "shell \<Rightarrow> string list \<Rightarrow> bool io" where
  "run_attempt sh command =
     io_then (emit (SubprocessRun command))
       (case subprocess_run sh command of
          RunRaised e \<Rightarrow> (Inl e, [])
        | Completed returncode out err \<Rightarrow>
            if returncode = 0 then
              io_then
                (io_all
                   (console_print sh ''[bold green]Success![/bold green]'' #
                    (if out \<noteq> [] then [console_panel sh out] else [])))
                (Inr True, [])
            else
              io_then
                (io_all
                   (console_print sh ''[bold red]Error![/bold red]'' #
                    (if err \<noteq> [] then [console_panel sh err] else []) @
                    (if out \<noteq> [] then [console_panel sh out] else [])))
                (Inr False, []))"

definition run_command :: "shell \<Rightarrow> string list \<Rightarrow> string \<Rightarrow> bool io" where
  "run_command sh command description =
     io_then
       (console_print sh (''[bold green]Running command:[/bold green] '' @ join_space command))
       (case fst (run_attempt sh command) of
          Inr result \<Rightarrow> run_attempt sh command
        | Inl e \<Rightarrow>
            io_then (Inr (), snd (run_attempt sh command))
              (io_then
                 (console_print sh (''[bold red]Exception occurred:[/bold red] '' @ e))
                 (Inr False, [])))"

definition press_enter :: event where
  "press_enter = InputWait ''Press Enter to continue...''"

definition press_enter_nl :: event where
  "press_enter_nl = InputWait (CHR 0x0A # ''Press Enter to continue...'')"

definition not_found_file :: "string \<Rightarrow> string" where
  "not_found_file p = ''[red]File not found: '' @ p @ ''[/red]''"

definition not_found_dir :: "string \<Rightarrow> string" where
  "not_found_dir p = ''[red]Directory not found: '' @ p @ ''[/red]''"

definition menu_process_pdfs :: "shell \<Rightarrow> string \<Rightarrow> string \<Rightarrow> string \<Rightarrow> unit io" where
  "menu_process_pdfs sh choice output_file entered =
     io_all
       [print_header sh,
        console_print sh ''[bold yellow]PDF Processor[/bold yellow]'',
        console_print sh ''1. Process a single PDF file'',
        console_print sh ''2. Process all PDFs in a directory'',
        console_print sh ''3. Process a PDF from URL'',
        console_print sh ''0. Back to Main Menu'',
        emit (PromptAsk ''Select option''),
        (if choice = ''0'' then (Inr (), [])
        else
          io_all
            [emit (PromptAsk ''Output JSON file path''),
             (if choice = ''1'' then
               io_all
                 [emit (PromptAsk ''Enter path to PDF file''),
                  (if \<not> path_exists sh entered then
                    io_all [console_print sh (not_found_file entered), emit press_enter]
                  else
                    io_all
                      [ignore_result (run_command sh
                         [''python'', ''-m'', ''src.pdf_processor'', ''--input'', entered,
                          ''--output'', output_file] ''Processing PDF...''),
                       emit press_enter_nl])]
             else if choice = ''2'' then
               io_all
                 [emit (PromptAsk ''Enter directory path''),
                  (if \<not> path_isdir sh entered then
                    io_all [console_print sh (not_found_dir entered), emit press_enter]
                  else
                    io_all
                      [ignore_result (run_command sh
                         [''python'', ''-m'', ''src.pdf_processor'', ''--input'', entered,
                          ''--output'', output_file] ''Processing Directory...''),
                       emit press_enter_nl])]
             else if choice = ''3'' then
               io_all
                 [emit (PromptAsk ''Enter PDF URL''),
                  ignore_result (run_command sh
                    [''python'', ''-m'', ''src.pdf_processor'', ''--input'', entered,
                     ''--output'', output_file] ''Downloading and Processing PDF...''),
                  emit press_enter_nl]
             else emit press_enter_nl)])]"

definition menu_process_websites :: "shell \<Rightarrow> string \<Rightarrow> string \<Rightarrow> string \<Rightarrow> unit io" where
  "menu_process_websites sh choice output_file entered =
     io_all
       [print_header sh,
        console_print sh ''[bold yellow]Website Processor[/bold yellow]'',
        console_print sh ''1. Process a single website URL'',
        console_print sh ''2. Process multiple URLs from a file'',
        console_print sh ''0. Back to Main Menu'',
        emit (PromptAsk ''Select option''),
        (if choice = ''0'' then (Inr (), [])
        else
          io_all
            [emit (PromptAsk ''Output JSON file path''),
             (if choice = ''1'' then
               io_all
                 [emit (PromptAsk ''Enter website URL''),
                  ignore_result (run_command sh
                    [''python'', ''-m'', ''src.web_processor'', ''--input'', entered,
                     ''--output'', output_file] ''Processing Website...''),
                  emit press_enter_nl]
             else if choice = ''2'' then
               io_all
                 [emit (PromptAsk ''Enter URLs file path''),
                  (if \<not> path_exists sh entered then
                    io_all [console_print sh (not_found_file entered), emit press_enter]
                  else
                    io_all
                      [ignore_result (run_command sh
                         [''python'', ''-m'', ''src.web_processor'', ''--input'', entered,
                          ''--output'', output_file] ''Processing URLs from file...''),
                       emit press_enter_nl])]
             else emit press_enter_nl)])]"

definition menu_manage_vector_store :: "shell \<Rightarrow> string \<Rightarrow> string \<Rightarrow> unit io" where
  "menu_manage_vector_store sh choice entered =
     io_all
       [print_header sh,
        console_print sh ''[bold yellow]Manage Vector Store[/bold yellow]'',
        console_print sh ''1. Add PDF chunks to vector store'',
        console_print sh ''2. Add Web chunks to vector store'',
        console_print sh ''3. Query vector store directly'',
        console_print sh ''0. Back to Main Menu'',
        emit (PromptAsk ''Select option''),
        (if choice = ''0'' then (Inr (), [])
        else if choice = ''1'' then
          io_all
            [emit (PromptAsk ''Enter chunks JSON file''),
             (if \<not> path_exists sh entered then
               io_all [console_print sh (not_found_file entered), emit press_enter]
             else
               io_all
                 [ignore_result (run_command sh [''python'', ''-m'', ''src.store'', ''--add'', entered]
                    ''Adding PDF chunks...''),
                  emit press_enter_nl])]
        else if choice = ''2'' then
          io_all
            [emit (PromptAsk ''Enter web content JSON file''),
             (if \<not> path_exists sh entered then
               io_all [console_print sh (not_found_file entered), emit press_enter]
             else
               io_all
                 [ignore_result (run_command sh [''python'', ''-m'', ''src.store'', ''--add-web'', entered]
                    ''Adding Web chunks...''),
                  emit press_enter_nl])]
        else if choice = ''3'' then
          io_all
            [emit (PromptAsk ''Enter search query''),
             ignore_result (run_command sh [''python'', ''-m'', ''src.store'', ''--query'', entered]
               ''Querying Vector Store...''),
             emit press_enter_nl]
        else emit press_enter_nl)]"

section \<open>Words of the specification\<close>

text \<open>
  The declared type of the configuration is \<^verbatim>\<open>Dict[str, str]\<close>: an entry is absent,
  null or a string. Such an entry is empty or missing when it is absent, null or the
  empty string.
\<close>

fun text_or_absent :: "pyval option \<Rightarrow> bool" where
  "text_or_absent None = True"
| "text_or_absent (Some VNone) = True"
| "text_or_absent (Some (VStr s)) = True"
| "text_or_absent (Some v) = False"

fun empty_or_missing :: "pyval option \<Rightarrow> bool" where
  "empty_or_missing None = True"
| "empty_or_missing (Some VNone) = True"
| "empty_or_missing (Some (VStr s)) = (s = [])"
| "empty_or_missing (Some v) = False"

fun is_connect :: "call \<Rightarrow> bool" where
  "is_connect (Connect kw) = True"
| "is_connect c = False"

fun is_new_store :: "call \<Rightarrow> bool" where
  "is_new_store (OracleVSNew table strategy) = True"
| "is_new_store c = False"

text \<open>The SQL text a call sends to the database, if it sends any.\<close>

fun statement :: "call \<Rightarrow> string option" where
  "statement (CursorExecute sql) = Some sql"
| "statement (CursorExecuteBind sql binds) = Some sql"
| "statement c = None"

text \<open>The SQL statements of a call log, in order.\<close>

fun statements :: "call list \<Rightarrow> string list" where
  "statements [] = []"
| "statements (c # cs) =
     (case statement c of None \<Rightarrow> statements cs | Some sql \<Rightarrow> sql # statements cs)"

fun is_subprocess :: "event \<Rightarrow> bool" where
  "is_subprocess (SubprocessRun command) = True"
| "is_subprocess e = False"

text \<open>A query result: a dictionary with exactly the keys \<^verbatim>\<open>content\<close> and \<^verbatim>\<open>metadata\<close>.\<close>

fun query_result :: "pyval \<Rightarrow> bool" where
  "query_result (VDict d) = (map fst d = [''content'', ''metadata''])"
| "query_result v = False"

text \<open>
  The results are taken from one similarity search against the named collection: the
  only call is that search on the collection's handle, and the results are its
  documents, in order, each as content and metadata.
\<close>

definition one_search ::
  "world \<Rightarrow> OraDBVectorStore \<Rightarrow> string \<Rightarrow> string \<Rightarrow> int \<Rightarrow> pyval list \<Rightarrow> call list \<Rightarrow> bool" where
  "one_search w self name query n results calls =
     (case map_of (vector_stores self) name of
        None \<Rightarrow> results = [] \<and> calls = []
      | Some store \<Rightarrow>
          calls = [SimilaritySearch (table_name store) query n] \<and>
          (case vs_similarity_search w (table_name store) query n of
             Inl e \<Rightarrow> False
           | Inr docs \<Rightarrow>
               results =
                 map (\<lambda>d. VDict [(''content'', page_content d), (''metadata'', metadata d)]) docs))"


section \<open>A database behind the cursor\<close>

text \<open>
  A table is the list of its rows in the order a full scan produces them; each row
  carries the time it was added. A query restricted by \<^verbatim>\<open>ROWNUM <= 1\<close> with no
  \<^verbatim>\<open>ORDER BY\<close> gets the first row the scan produces. The most recently added row is
  the one with the greatest time.
\<close>

record stored_row =
  row_text :: string
  row_metadata :: string
  added_at :: nat

definition first_row_sql :: "string \<Rightarrow> string" where
  "first_row_sql table = ''SELECT text, metadata FROM '' @ table @ '' WHERE ROWNUM <= 1''"

fun lookup_statement :: "(string \<times> stored_row list) list \<Rightarrow> string \<Rightarrow> stored_row list option" where
  "lookup_statement [] sql = None"
| "lookup_statement ((table, rows) # db) sql =
     (if sql = first_row_sql table then Some rows else lookup_statement db sql)"

fun most_recent :: "stored_row list \<Rightarrow> stored_row option" where
  "most_recent [] = None"
| "most_recent (r # rs) =
     (case most_recent rs of
        None \<Rightarrow> Some r
      | Some r' \<Rightarrow> if added_at r < added_at r' then Some r' else Some r)"

definition database_world :: "world \<Rightarrow> (string \<times> stored_row list) list \<Rightarrow> world" where
  "database_world w db =
     w\<lparr>cur_execute := (\<lambda>sql.
          case lookup_statement db sql of
            None \<Rightarrow> Some ''ORA-00942: table or view does not exist''
          | Some rows \<Rightarrow> None),
       cur_fetchone := (\<lambda>sql.
          case lookup_statement db sql of
            Some (r # rows) \<Rightarrow> Some [VStr (row_text r), VLob (row_metadata r)]
          | _ \<Rightarrow> None)\<rparr>"

section \<open>Concrete inputs\<close>

definition sample_credentials :: pydict where
  "sample_credentials =
     [(''ORACLE_DB_PASSWORD'', VStr ''secret''), (''ORACLE_DB_DSN'', VStr ''db_high'')]"

definition sample_docs :: "document list" where
  "sample_docs =
     [\<lparr>page_content = VStr ''alpha'', metadata = VDict [(''source'', VStr ''a.pdf'')]\<rparr>,
      \<lparr>page_content = VStr ''beta'', metadata = VDict []\<rparr>]"

definition sample_world :: world where
  "sample_world =
     \<lparr>config_yaml = Loaded (VDict sample_credentials),
      json_loads = (\<lambda>s. None),
      py_str = (\<lambda>v. ''text''),
      db_connect = (\<lambda>kw. None),
      oraclevs_init = (\<lambda>table. ([], None)),
      vs_add_texts = (\<lambda>table texts metadatas. None),
      vs_similarity_search = (\<lambda>table query k. Inr sample_docs),
      vs_delete = (\<lambda>table ids. None),
      cur_execute = (\<lambda>sql. None),
      cur_fetchone = (\<lambda>sql. None)\<rparr>"

definition wallet_world :: world where
  "wallet_world =
     sample_world
       \<lparr>config_yaml :=
          Loaded (VDict (sample_credentials @
            [(''ORACLE_DB_WALLET_LOCATION'', VStr ''/opt/wallet''),
             (''ORACLE_DB_WALLET_PASSWORD'', VStr ''w'')]))\<rparr>"

definition sample_conn :: pydict where
  "sample_conn = [(''user'', VStr ''ADMIN''), (''password'', VStr ''secret''), (''dsn'', VStr ''db_high'')]"

definition sample_handle :: "string \<Rightarrow> OracleVS" where
  "sample_handle table =
     \<lparr>client = sample_conn, embedding_function = OracleEmbeddings default_embed_params,
      table_name = table, distance_strategy = ''EUCLIDEAN_DISTANCE''\<rparr>"

definition sample_store :: OraDBVectorStore where
  "sample_store =
     \<lparr>connection = sample_conn,
      embeddings = OracleEmbeddings default_embed_params,
      collections = collection_tables,
      vector_stores =
        [(''pdf_documents'', sample_handle ''PDFCollection''),
         (''web_documents'', sample_handle ''WebCollection''),
         (''repository_documents'', sample_handle ''RepoCollection''),
         (''general_knowledge'', sample_handle ''GeneralCollection'')]\<rparr>"

definition sample_metadata :: pydict where
  "sample_metadata =
     [(''source'', VStr ''a.pdf''),
      (''page'', VInt 3),
      (''score'', VFloat 0x3FF0000000000000),
      (''ocr'', VBool True),
      (''page_numbers'', VList [VInt 1, VInt 2]),
      (''title'', VNone),
      (''extra'', VDict [(''k'', VInt 1)])]"

definition sample_chunks :: "pydict list" where
  "sample_chunks =
     [[(''text'', VStr ''first''), (''metadata'', VDict sample_metadata)],
      [(''text'', VStr ''second''), (''metadata'', VDict [(''title'', VNone)])]]"

definition two_rows :: "stored_row list" where
  "two_rows =
     [\<lparr>row_text = ''added first'', row_metadata = ''{}'', added_at = 1\<rparr>,
      \<lparr>row_text = ''added last'', row_metadata = ''{}'', added_at = 2\<rparr>]"

definition two_row_world :: world where
  "two_row_world = database_world sample_world [(''PDFCollection'', two_rows)]"

definition missing_shell :: shell where
  "missing_shell =
     \<lparr>os_name = ''posix'', getcwd = ''/app'', path_at = (\<lambda>p. Missing),
      subprocess_run = (\<lambda>command. Completed 0 ''ok'' []),
      markup_error = (\<lambda>text. None)\<rparr>"

text \<open>
  The console library rejects a closing tag that no opening tag precedes. In
  \<open>tag_shell\<close> nothing exists at any path and the console rejects the message that
  holds the path \<^verbatim>\<open>[/x].json\<close>.
\<close>

definition tag_shell :: shell where
  "tag_shell =
     missing_shell
       \<lparr>markup_error := (\<lambda>text.
          if text = ''[red]File not found: [/x].json[/red]''
          then Some ''closing tag [/x] at position 21 does not match any open tag''
          else None)\<rparr>"

definition sanitized_sample :: pydict where
  "sanitized_sample =
     [(''source'', VStr ''a.pdf''),
      (''page'', VInt 3),
      (''score'', VFloat 0x3FF0000000000000),
      (''ocr'', VBool True),
      (''page_numbers'', VStr ''text''),
      (''title'', VStr ''''),
      (''extra'', VStr ''text'')]"

definition empty_store :: OraDBVectorStore where
  "empty_store = sample_store\<lparr>collections := [], vector_stores := []\<rparr>"

definition sample_results :: "pyval list" where
  "sample_results =
     [VDict [(''content'', VStr ''alpha''), (''metadata'', VDict [(''source'', VStr ''a.pdf'')])],
      VDict [(''content'', VStr ''beta''), (''metadata'', VDict [])]]"

definition no_config_world :: world where
  "no_config_world = sample_world\<lparr>config_yaml := NoFile\<rparr>"

definition store_calls :: "call list" where
  "store_calls =
     [OracleVSNew ''PDFCollection'' ''EUCLIDEAN_DISTANCE'',
      OracleVSNew ''WebCollection'' ''EUCLIDEAN_DISTANCE'',
      OracleVSNew ''RepoCollection'' ''EUCLIDEAN_DISTANCE'',
      OracleVSNew ''GeneralCollection'' ''EUCLIDEAN_DISTANCE'']"

text \<open>
  A client library whose handle constructor looks for the table and creates it: it sends a
  probe and a \<^verbatim>\<open>CREATE TABLE\<close> for the table it is given.
\<close>

definition create_table_sql :: "string \<Rightarrow> string" where
  "create_table_sql table =
     ''CREATE TABLE '' @ table @
     '' (id RAW(16) DEFAULT SYS_GUID() PRIMARY KEY, text CLOB, metadata JSON, embedding vector(384, FLOAT32))''"

definition library_world :: world where
  "library_world =
     sample_world
       \<lparr>oraclevs_init := (\<lambda>table. ([''SELECT COUNT(*) FROM '' @ table, create_table_sql table], None))\<rparr>"

definition library_calls :: "call list" where
  "library_calls =
     [Connect sample_conn,
      OracleEmbeddingsNew default_embed_params,
      OracleVSNew ''PDFCollection'' ''EUCLIDEAN_DISTANCE'',
      CursorExecute ''SELECT COUNT(*) FROM PDFCollection'',
      CursorExecute (create_table_sql ''PDFCollection''),
      OracleVSNew ''WebCollection'' ''EUCLIDEAN_DISTANCE'',
      CursorExecute ''SELECT COUNT(*) FROM WebCollection'',
      CursorExecute (create_table_sql ''WebCollection''),
      OracleVSNew ''RepoCollection'' ''EUCLIDEAN_DISTANCE'',
      CursorExecute ''SELECT COUNT(*) FROM RepoCollection'',
      CursorExecute (create_table_sql ''RepoCollection''),
      OracleVSNew ''GeneralCollection'' ''EUCLIDEAN_DISTANCE'',
      CursorExecute ''SELECT COUNT(*) FROM GeneralCollection'',
      CursorExecute (create_table_sql ''GeneralCollection'')]"

section \<open>Metadata sanitization (C1)\<close>

lemma dict_set_fresh: "key \<notin> set (map fst d) \<Longrightarrow> dict_set d key v = d @ [(key, v)]"
  by (induction d) auto

lemma sanitize_items_distinct:
  "distinct (map fst items) \<Longrightarrow> set (map fst items) \<inter> set (map fst acc) = {} \<Longrightarrow>
   sanitize_items str items acc = acc @ map (\<lambda>(k, v). (k, sanitize_value str v)) items"
proof (induction items arbitrary: acc)
  case Nil
  then show ?case by simp
next
  case (Cons kv items)
  obtain k v where kv: "kv = (k, v)" by (cases kv)
  from Cons.prems have fresh: "k \<notin> set (map fst acc)" and d: "distinct (map fst items)"
    and disj: "set (map fst items) \<inter> set (map fst (acc @ [(k, sanitize_value str v)])) = {}"
    by (auto simp: kv)
  show ?case
    using Cons.IH [OF d disj] by (simp add: kv dict_set_fresh [OF fresh])
qed

lemma map_of_sanitized:
  "map_of (map (\<lambda>(k, v). (k, sanitize_value str v)) md) k = map_option (sanitize_value str) (map_of md k)"
  by (induction md) auto

lemma keys_sanitized: "map fst (map (\<lambda>(k, v). (k, sanitize_value str v)) md) = map fst md"
  by (induction md) auto

lemma sanitize_metadata_dict:
  assumes "distinct (map fst md)"
  shows "sanitize_metadata w (VDict md) = Inr (map (\<lambda>(k, v). (k, sanitize_value (py_str w) v)) md)"
  using sanitize_items_distinct [OF assms, of "[]" "py_str w"]
  by (simp add: sanitize_metadata_def)

lemma comprehension_all2:
  "comprehension f xs = Inr ys \<Longrightarrow> list_all2 (\<lambda>x y. f x = Inr y) xs ys"
  by (induction xs arbitrary: ys) (auto split: sum.splits)

lemma comprehension_total:
  "\<forall>x\<in>set xs. \<exists>y. f x = Inr y \<Longrightarrow> \<exists>ys. comprehension f xs = Inr ys"
proof (induction xs)
  case Nil
  then show ?case by simp
next
  case (Cons a xs)
  then obtain y ys where "f a = Inr y" "comprehension f xs = Inr ys" by auto
  then show ?case by simp
qed

lemma add_chunks_calls:
  assumes "AddTexts table texts metadatas \<in> set (snd (add_chunks_to_collection w self chunks name))"
  shows "list_all2 (\<lambda>chunk m. chunk_metadata w chunk = Inr m) chunks metadatas"
  using assms comprehension_all2 [of "chunk_metadata w" chunks]
  by (auto simp: add_chunks_to_collection_def split: if_splits option.splits sum.splits)

lemma chunk_metadata_sanitized:
  assumes "chunk_metadata w chunk = Inr m"
  shows "\<exists>md. map_of chunk ''metadata'' = Some md \<and> sanitize_metadata w md = Inr m"
  using assms by (auto simp: chunk_metadata_def dict_index_def split: option.splits sum.splits)


lemma text_index:
  "map_of chunk ''text'' = Some t \<Longrightarrow> dict_index chunk ''text'' = Inr t"
  by (simp add: dict_index_def)

lemma metadata_index:
  "map_of chunk ''metadata'' = Some (VDict raw) \<Longrightarrow>
   chunk_metadata w chunk = Inr (sanitize_items (py_str w) raw [])"
  by (simp add: chunk_metadata_def dict_index_def sanitize_metadata_def)

lemma add_chunks_stores:
  assumes "chunks \<noteq> []"
    and "map_of (vector_stores self) name = Some store"
    and "\<forall>chunk\<in>set chunks. \<exists>t raw.
           map_of chunk ''text'' = Some t \<and> map_of chunk ''metadata'' = Some (VDict raw)"
  shows "\<exists>texts metadatas.
      snd (add_chunks_to_collection w self chunks name) =
        [AddTexts (table_name store) texts metadatas] \<and>
      list_all2 (\<lambda>chunk t. map_of chunk ''text'' = Some t) chunks texts \<and>
      list_all2
        (\<lambda>chunk m. \<exists>raw. map_of chunk ''metadata'' = Some raw \<and> sanitize_metadata w raw = Inr m)
        chunks metadatas"
proof -
  have "\<forall>chunk\<in>set chunks. \<exists>y. dict_index chunk ''text'' = Inr y"
  proof
    fix chunk assume "chunk \<in> set chunks"
    with assms(3) obtain t where "map_of chunk ''text'' = Some t" by blast
    then show "\<exists>y. dict_index chunk ''text'' = Inr y" by (blast dest: text_index)
  qed
  then have "\<exists>texts. comprehension (\<lambda>chunk. dict_index chunk ''text'') chunks = Inr texts"
    by (rule comprehension_total)
  then obtain texts where t: "comprehension (\<lambda>chunk. dict_index chunk ''text'') chunks = Inr texts" ..
  have "\<forall>chunk\<in>set chunks. \<exists>y. chunk_metadata w chunk = Inr y"
  proof
    fix chunk assume "chunk \<in> set chunks"
    with assms(3) obtain raw where "map_of chunk ''metadata'' = Some (VDict raw)" by blast
    then show "\<exists>y. chunk_metadata w chunk = Inr y" by (blast dest: metadata_index)
  qed
  then have "\<exists>metadatas. comprehension (chunk_metadata w) chunks = Inr metadatas"
    by (rule comprehension_total)
  then obtain metadatas where m: "comprehension (chunk_metadata w) chunks = Inr metadatas" ..
  have "list_all2 (\<lambda>chunk t. dict_index chunk ''text'' = Inr t) chunks texts"
    by (rule comprehension_all2 [OF t])
  then have l1: "list_all2 (\<lambda>chunk t. map_of chunk ''text'' = Some t) chunks texts"
    by (rule list_all2_mono) (simp add: dict_index_def split: option.splits)
  have "list_all2 (\<lambda>chunk m. chunk_metadata w chunk = Inr m) chunks metadatas"
    by (rule comprehension_all2 [OF m])
  then have l2: "list_all2
        (\<lambda>chunk m. \<exists>raw. map_of chunk ''metadata'' = Some raw \<and> sanitize_metadata w raw = Inr m)
        chunks metadatas"
    by (rule list_all2_mono) (rule chunk_metadata_sanitized)
  have c: "snd (add_chunks_to_collection w self chunks name) =
      [AddTexts (table_name store) texts metadatas]"
    using assms(1) assms(2) t m by (simp add: add_chunks_to_collection_def)
  show ?thesis
    apply (rule exI [of _ texts])
    apply (rule exI [of _ metadatas])
    apply (intro conjI)
      apply (rule c)
     apply (rule l1)
    apply (rule l2)
    done
qed

text \<open>
  C1. For a metadata mapping, \<open>sanitize_metadata\<close> returns a mapping with the same keys
  in the same order, in which a string, int, float or bool value is unchanged, a list
  value is replaced by its \<^verbatim>\<open>str\<close>, None by the empty string and a value of any other
  type by its \<^verbatim>\<open>str\<close>. Whenever \<open>add_chunks_to_collection\<close> hands metadata to the
  vector store, each is the sanitized metadata of the chunk at the same position. And it
  does hand them over: for a collection of the store and a non-empty list of chunks that
  each have a text and a metadata mapping, it makes exactly one \<^verbatim>\<open>add_texts\<close> call on the
  collection's handle, with the chunks' texts and their sanitized metadata.
\<close>

theorem sanitize_metadata_rule:
  assumes "distinct (map fst md)"
  shows "\<exists>out. sanitize_metadata w (VDict md) = Inr out \<and> map fst out = map fst md \<and>
     (\<forall>k s. map_of md k = Some (VStr s) \<longrightarrow> map_of out k = Some (VStr s)) \<and>
     (\<forall>k i. map_of md k = Some (VInt i) \<longrightarrow> map_of out k = Some (VInt i)) \<and>
     (\<forall>k f. map_of md k = Some (VFloat f) \<longrightarrow> map_of out k = Some (VFloat f)) \<and>
     (\<forall>k b. map_of md k = Some (VBool b) \<longrightarrow> map_of out k = Some (VBool b)) \<and>
     (\<forall>k xs. map_of md k = Some (VList xs) \<longrightarrow> map_of out k = Some (VStr (py_str w (VList xs)))) \<and>
     (\<forall>k. map_of md k = Some VNone \<longrightarrow> map_of out k = Some (VStr '''')) \<and>
     (\<forall>k d. map_of md k = Some (VDict d) \<longrightarrow> map_of out k = Some (VStr (py_str w (VDict d)))) \<and>
     (\<forall>k s. map_of md k = Some (VLob s) \<longrightarrow> map_of out k = Some (VStr (py_str w (VLob s)))) \<and>
     (\<forall>k n. map_of md k = Some (VObj n) \<longrightarrow> map_of out k = Some (VStr (py_str w (VObj n)))) \<and>
     (\<forall>self chunks name table texts metadatas.
        AddTexts table texts metadatas \<in> set (snd (add_chunks_to_collection w self chunks name)) \<longrightarrow>
        list_all2 (\<lambda>chunk m. \<exists>raw. map_of chunk ''metadata'' = Some raw \<and> sanitize_metadata w raw = Inr m)
          chunks metadatas) \<and>
     (\<forall>self chunks name store.
        chunks \<noteq> [] \<and> map_of (vector_stores self) name = Some store \<and>
        (\<forall>chunk\<in>set chunks. \<exists>t raw.
           map_of chunk ''text'' = Some t \<and> map_of chunk ''metadata'' = Some (VDict raw)) \<longrightarrow>
        (\<exists>texts metadatas.
           snd (add_chunks_to_collection w self chunks name) =
             [AddTexts (table_name store) texts metadatas] \<and>
           list_all2 (\<lambda>chunk t. map_of chunk ''text'' = Some t) chunks texts \<and>
           list_all2
             (\<lambda>chunk m. \<exists>raw. map_of chunk ''metadata'' = Some raw \<and> sanitize_metadata w raw = Inr m)
             chunks metadatas))"
proof -
  let ?out = "map (\<lambda>(k, v). (k, sanitize_value (py_str w) v)) md"
  have out: "sanitize_metadata w (VDict md) = Inr ?out"
    by (rule sanitize_metadata_dict [OF assms])
  have keys: "map fst ?out = map fst md" by (rule keys_sanitized)
  have val: "\<And>k v. map_of md k = Some v \<Longrightarrow> map_of ?out k = Some (sanitize_value (py_str w) v)"
    by (simp add: map_of_sanitized)
  have v1: "\<And>k s. map_of md k = Some (VStr s) \<Longrightarrow> map_of ?out k = Some (VStr s)"
    by (drule val) (simp add: sanitize_value_def)
  have v2: "\<And>k i. map_of md k = Some (VInt i) \<Longrightarrow> map_of ?out k = Some (VInt i)"
    by (drule val) (simp add: sanitize_value_def)
  have v3: "\<And>k f. map_of md k = Some (VFloat f) \<Longrightarrow> map_of ?out k = Some (VFloat f)"
    by (drule val) (simp add: sanitize_value_def)
  have v4: "\<And>k b. map_of md k = Some (VBool b) \<Longrightarrow> map_of ?out k = Some (VBool b)"
    by (drule val) (simp add: sanitize_value_def)
  have v5: "\<And>k xs. map_of md k = Some (VList xs) \<Longrightarrow>
      map_of ?out k = Some (VStr (py_str w (VList xs)))"
    by (drule val) (simp add: sanitize_value_def)
  have v6: "\<And>k. map_of md k = Some VNone \<Longrightarrow> map_of ?out k = Some (VStr '''')"
    by (drule val) (simp add: sanitize_value_def)
  have v7: "\<And>k d. map_of md k = Some (VDict d) \<Longrightarrow>
      map_of ?out k = Some (VStr (py_str w (VDict d)))"
    by (drule val) (simp add: sanitize_value_def)
  have v8: "\<And>k s. map_of md k = Some (VLob s) \<Longrightarrow>
      map_of ?out k = Some (VStr (py_str w (VLob s)))"
    by (drule val) (simp add: sanitize_value_def)
  have v9: "\<And>k n. map_of md k = Some (VObj n) \<Longrightarrow>
      map_of ?out k = Some (VStr (py_str w (VObj n)))"
    by (drule val) (simp add: sanitize_value_def)
  have adds: "list_all2
        (\<lambda>chunk m. \<exists>raw. map_of chunk ''metadata'' = Some raw \<and> sanitize_metadata w raw = Inr m)
        chunks metadatas"
    if a: "AddTexts table texts metadatas \<in> set (snd (add_chunks_to_collection w self chunks name))"
    for self chunks name table texts metadatas
  proof -
    have "list_all2 (\<lambda>chunk m. chunk_metadata w chunk = Inr m) chunks metadatas"
      by (rule add_chunks_calls [OF a])
    then show ?thesis
      by (rule list_all2_mono) (rule chunk_metadata_sanitized)
  qed
  show ?thesis
    apply (rule exI [of _ ?out])
    apply (intro conjI allI impI)
               apply (rule out)
              apply (rule keys)
             apply (erule v1)
            apply (erule v2)
           apply (erule v3)
          apply (erule v4)
         apply (erule v5)
        apply (erule v6)
       apply (erule v7)
      apply (erule v8)
     apply (erule v9)
    apply (erule adds)
    apply (elim conjE)
    apply (rule add_chunks_stores; assumption)
    done
qed

lemma sample_run:
  "add_chunks_to_collection sample_world sample_store sample_chunks ''pdf_documents'' =
     (Inr (), [AddTexts ''PDFCollection'' [VStr ''first'', VStr ''second'']
        [sanitized_sample, [(''title'', VStr '''')]]])"
  by (simp add: add_chunks_to_collection_def sample_world_def sample_store_def sample_chunks_def
      sample_metadata_def sanitized_sample_def chunk_metadata_def dict_index_def
      sanitize_metadata_def sanitize_value_def sample_handle_def)

theorem sanitize_metadata_rule_witness:
  "distinct (map fst sample_metadata) \<and>
   (\<exists>out. sanitize_metadata sample_world (VDict sample_metadata) = Inr out \<and>
      map fst out = [''source'', ''page'', ''score'', ''ocr'', ''page_numbers'', ''title'', ''extra''] \<and>
      map_of out ''source'' = Some (VStr ''a.pdf'') \<and>
      map_of out ''page'' = Some (VInt 3) \<and>
      map_of out ''ocr'' = Some (VBool True) \<and>
      map_of out ''page_numbers'' = Some (VStr ''text'') \<and>
      map_of out ''title'' = Some (VStr '''') \<and>
      map_of out ''extra'' = Some (VStr ''text'')) \<and>
   list_all2
     (\<lambda>chunk m. \<exists>raw. map_of chunk ''metadata'' = Some raw \<and> sanitize_metadata sample_world raw = Inr m)
     sample_chunks [sanitized_sample, [(''title'', VStr '''')]] \<and>
   (\<exists>texts metadatas.
      snd (add_chunks_to_collection sample_world sample_store sample_chunks ''pdf_documents'') =
        [AddTexts ''PDFCollection'' texts metadatas] \<and>
      list_all2 (\<lambda>chunk t. map_of chunk ''text'' = Some t) sample_chunks texts \<and>
      list_all2
        (\<lambda>chunk m. \<exists>raw. map_of chunk ''metadata'' = Some raw \<and> sanitize_metadata sample_world raw = Inr m)
        sample_chunks metadatas)"
proof -
  have d: "distinct (map fst sample_metadata)" by (simp add: sample_metadata_def)
  from sanitize_metadata_rule [OF d, of sample_world] show ?thesis
  proof (elim exE conjE)
    fix out
    assume a: "sanitize_metadata sample_world (VDict sample_metadata) = Inr out"
      and b: "map fst out = map fst sample_metadata"
      and s: "\<forall>k s. map_of sample_metadata k = Some (VStr s) \<longrightarrow> map_of out k = Some (VStr s)"
      and i: "\<forall>k i. map_of sample_metadata k = Some (VInt i) \<longrightarrow> map_of out k = Some (VInt i)"
      and bo: "\<forall>k b. map_of sample_metadata k = Some (VBool b) \<longrightarrow> map_of out k = Some (VBool b)"
      and l: "\<forall>k xs. map_of sample_metadata k = Some (VList xs) \<longrightarrow>
                map_of out k = Some (VStr (py_str sample_world (VList xs)))"
      and n: "\<forall>k. map_of sample_metadata k = Some VNone \<longrightarrow> map_of out k = Some (VStr '''')"
      and di: "\<forall>k d. map_of sample_metadata k = Some (VDict d) \<longrightarrow>
                map_of out k = Some (VStr (py_str sample_world (VDict d)))"
      and ad: "\<forall>self chunks name table texts metadatas.
          AddTexts table texts metadatas
            \<in> set (snd (add_chunks_to_collection sample_world self chunks name)) \<longrightarrow>
          list_all2
            (\<lambda>chunk m. \<exists>raw. map_of chunk ''metadata'' = Some raw \<and>
               sanitize_metadata sample_world raw = Inr m)
            chunks metadatas"
      and st: "\<forall>self chunks name store.
        chunks \<noteq> [] \<and> map_of (vector_stores self) name = Some store \<and>
        (\<forall>chunk\<in>set chunks. \<exists>t raw.
           map_of chunk ''text'' = Some t \<and> map_of chunk ''metadata'' = Some (VDict raw)) \<longrightarrow>
        (\<exists>texts metadatas.
           snd (add_chunks_to_collection sample_world self chunks name) =
             [AddTexts (table_name store) texts metadatas] \<and>
           list_all2 (\<lambda>chunk t. map_of chunk ''text'' = Some t) chunks texts \<and>
           list_all2
             (\<lambda>chunk m. \<exists>raw. map_of chunk ''metadata'' = Some raw \<and>
                sanitize_metadata sample_world raw = Inr m)
             chunks metadatas)"
    have pre: "sample_chunks \<noteq> [] \<and>
        map_of (vector_stores sample_store) ''pdf_documents'' = Some (sample_handle ''PDFCollection'') \<and>
        (\<forall>chunk\<in>set sample_chunks. \<exists>t raw.
           map_of chunk ''text'' = Some t \<and> map_of chunk ''metadata'' = Some (VDict raw))"
      by (simp add: sample_chunks_def sample_store_def)
    have tn: "table_name (sample_handle ''PDFCollection'') = ''PDFCollection''"
      by (simp add: sample_handle_def)
    have k9: "\<exists>texts metadatas.
      snd (add_chunks_to_collection sample_world sample_store sample_chunks ''pdf_documents'') =
        [AddTexts ''PDFCollection'' texts metadatas] \<and>
      list_all2 (\<lambda>chunk t. map_of chunk ''text'' = Some t) sample_chunks texts \<and>
      list_all2
        (\<lambda>chunk m. \<exists>raw. map_of chunk ''metadata'' = Some raw \<and> sanitize_metadata sample_world raw = Inr m)
        sample_chunks metadatas"
      using st [rule_format, OF pre] by (simp only: tn)
    have k1: "map fst out = [''source'', ''page'', ''score'', ''ocr'', ''page_numbers'', ''title'', ''extra'']"
      using b by (simp add: sample_metadata_def)
    have k2: "map_of out ''source'' = Some (VStr ''a.pdf'')"
      by (rule s [rule_format]) (simp add: sample_metadata_def)
    have k3: "map_of out ''page'' = Some (VInt 3)"
      by (rule i [rule_format]) (simp add: sample_metadata_def)
    have k4: "map_of out ''ocr'' = Some (VBool True)"
      by (rule bo [rule_format]) (simp add: sample_metadata_def)
    have "map_of out ''page_numbers'' = Some (VStr (py_str sample_world (VList [VInt 1, VInt 2])))"
      by (rule l [rule_format]) (simp add: sample_metadata_def)
    then have k5: "map_of out ''page_numbers'' = Some (VStr ''text'')"
      by (simp add: sample_world_def)
    have k6: "map_of out ''title'' = Some (VStr '''')"
      by (rule n [rule_format]) (simp add: sample_metadata_def)
    have "map_of out ''extra'' = Some (VStr (py_str sample_world (VDict [(''k'', VInt 1)])))"
      by (rule di [rule_format]) (simp add: sample_metadata_def)
    then have k7: "map_of out ''extra'' = Some (VStr ''text'')"
      by (simp add: sample_world_def)
    have k8: "list_all2
       (\<lambda>chunk m. \<exists>raw. map_of chunk ''metadata'' = Some raw \<and> sanitize_metadata sample_world raw = Inr m)
       sample_chunks [sanitized_sample, [(''title'', VStr '''')]]"
      by (rule ad [rule_format, of "''PDFCollection''" "[VStr ''first'', VStr ''second'']" _
            sample_store sample_chunks "''pdf_documents''"])
         (simp add: sample_run)
    show ?thesis
      apply (intro conjI exI [of _ out])
               apply (rule d)
              apply (rule a)
             apply (rule k1)
            apply (rule k2)
           apply (rule k3)
          apply (rule k4)
         apply (rule k5)
        apply (rule k6)
       apply (rule k7)
      apply (rule k8)
      apply (rule k9)
      done
  qed
qed

section \<open>Empty chunk lists (C9)\<close>

text \<open>
  C9. Adding an empty chunk list is a no-op: for every store and every collection name,
  known or not, \<open>add_chunks_to_collection\<close> and the four public adders return normally and
  make no call at all, so nothing outside the class changes.
\<close>

theorem add_empty_noop:
  "add_chunks_to_collection w self [] name = (Inr (), []) \<and>
   add_pdf_chunks w self [] document_id = (Inr (), []) \<and>
   add_web_chunks w self [] source_id = (Inr (), []) \<and>
   add_general_knowledge w self [] source_id = (Inr (), []) \<and>
   add_repo_chunks w self [] document_id = (Inr (), [])"
  by (simp add: add_chunks_to_collection_def add_pdf_chunks_def add_web_chunks_def
      add_general_knowledge_def add_repo_chunks_def)

section \<open>Unknown collection names (C8)\<close>

text \<open>
  C8. For a collection name that the store does not know, the query helper returns the
  empty list, the row count is 0 and the latest chunk is the empty dictionary, all without
  a call; adding a non-empty chunk list and deleting raise a ValueError that names the
  collection. A public query method whose collection is unknown returns the empty list.
\<close>

theorem unknown_collection_asymmetry:
  assumes "map_of (vector_stores self) name = None"
    and "map_of (collections self) name = None"
  shows "query_collection w self name query n = (Inr [], []) \<and>
     get_collection_count w self name = (VInt 0, []) \<and>
     get_latest_chunk w self name = ([], []) \<and>
     add_chunks_to_collection w self (chunk # chunks) name =
       (Inl (ValueError (''Collection '' @ name @ '' not found'')), []) \<and>
     delete_documents w self name ids delete_all =
       (Inl (ValueError (''Collection '' @ name @ '' not found'')), []) \<and>
     (name = ''pdf_documents'' \<longrightarrow> query_pdf_collection w self query n = (Inr [], [])) \<and>
     (name = ''web_documents'' \<longrightarrow> query_web_collection w self query n = (Inr [], [])) \<and>
     (name = ''general_knowledge'' \<longrightarrow> query_general_collection w self query n = (Inr [], [])) \<and>
     (name = ''repository_documents'' \<longrightarrow> query_repo_collection w self query n = (Inr [], []))"
  using assms
  by (auto simp: query_collection_def get_collection_count_def get_latest_chunk_def
      add_chunks_to_collection_def delete_documents_def not_found_def
      query_pdf_collection_def query_web_collection_def query_general_collection_def
      query_repo_collection_def)

theorem unknown_collection_asymmetry_witness:
  "map_of (vector_stores sample_store) ''notes'' = None \<and>
   map_of (collections sample_store) ''notes'' = None \<and>
   query_collection sample_world sample_store ''notes'' ''q'' 3 = (Inr [], []) \<and>
   get_collection_count sample_world sample_store ''notes'' = (VInt 0, []) \<and>
   get_latest_chunk sample_world sample_store ''notes'' = ([], []) \<and>
   add_chunks_to_collection sample_world sample_store ([(''text'', VStr ''t'')] # []) ''notes'' =
     (Inl (ValueError ''Collection notes not found''), []) \<and>
   delete_documents sample_world sample_store ''notes'' (Some [''id1'']) False =
     (Inl (ValueError ''Collection notes not found''), []) \<and>
   map_of (vector_stores empty_store) ''pdf_documents'' = None \<and>
   query_pdf_collection sample_world empty_store ''q'' 3 = (Inr [], [])"
proof -
  have a: "map_of (vector_stores sample_store) ''notes'' = None"
    by (simp add: sample_store_def)
  have b: "map_of (collections sample_store) ''notes'' = None"
    by (simp add: sample_store_def collection_tables_def)
  have c: "map_of (vector_stores empty_store) ''pdf_documents'' = None"
    by (simp add: empty_store_def)
  have d: "map_of (collections empty_store) ''pdf_documents'' = None"
    by (simp add: empty_store_def)
  show ?thesis
    using a b c
      unknown_collection_asymmetry [OF a b, of sample_world "''q''" 3 "[(''text'', VStr ''t'')]" "[]"
        "Some [''id1'']" False]
      unknown_collection_asymmetry [OF c d, of sample_world "''q''" 3]
    by simp
qed

section \<open>Query results (C5)\<close>

lemma query_result_format: "query_result (format_result d)"
  by (simp add: format_result_def)

lemma query_collection_shape:
  assumes "fst (query_collection w self name query n) = Inr results"
  shows "list_all query_result results \<and>
         one_search w self name query n results (snd (query_collection w self name query n))"
proof (cases "map_of (vector_stores self) name")
  case None
  with assms show ?thesis
    by (simp add: query_collection_def one_search_def)
next
  case (Some store)
  show ?thesis
  proof (cases "vs_similarity_search w (table_name store) query n")
    case (Inl e)
    with assms Some show ?thesis by (simp add: query_collection_def)
  next
    case (Inr docs)
    with assms Some have r: "results = map format_result docs"
      by (simp add: query_collection_def)
    have "list_all query_result (map format_result docs)"
      by (simp add: list_all_iff query_result_format)
    with r Some Inr show ?thesis
      by (simp add: query_collection_def one_search_def format_result_def)
  qed
qed

text \<open>
  C5. For every query string and result count, whenever one of the four public query
  methods returns a list, every element is a dictionary with exactly the keys
  \<^verbatim>\<open>content\<close> and \<^verbatim>\<open>metadata\<close>, and the list is made, in order, from the documents that
  one similarity search against that method's own collection returned.
\<close>

theorem query_methods_shape:
  "(fst (query_pdf_collection w self query n) = Inr r1 \<longrightarrow>
      list_all query_result r1 \<and>
      one_search w self ''pdf_documents'' query n r1 (snd (query_pdf_collection w self query n))) \<and>
   (fst (query_web_collection w self query n) = Inr r2 \<longrightarrow>
      list_all query_result r2 \<and>
      one_search w self ''web_documents'' query n r2 (snd (query_web_collection w self query n))) \<and>
   (fst (query_general_collection w self query n) = Inr r3 \<longrightarrow>
      list_all query_result r3 \<and>
      one_search w self ''general_knowledge'' query n r3
        (snd (query_general_collection w self query n))) \<and>
   (fst (query_repo_collection w self query n) = Inr r4 \<longrightarrow>
      list_all query_result r4 \<and>
      one_search w self ''repository_documents'' query n r4
        (snd (query_repo_collection w self query n)))"
  unfolding query_pdf_collection_def query_web_collection_def query_general_collection_def
    query_repo_collection_def
  by (intro conjI impI; (drule query_collection_shape, simp))

lemma sample_query:
  "query_collection sample_world sample_store name ''q'' 2 =
     (case map_of (vector_stores sample_store) name of
        None \<Rightarrow> (Inr [], [])
      | Some store \<Rightarrow> (Inr sample_results, [SimilaritySearch (table_name store) ''q'' 2]))"
  by (simp add: query_collection_def sample_world_def sample_results_def sample_docs_def
      format_result_def split: option.splits)

theorem query_methods_shape_witness:
  "fst (query_pdf_collection sample_world sample_store ''q'' 2) = Inr sample_results \<and>
   fst (query_web_collection sample_world sample_store ''q'' 2) = Inr sample_results \<and>
   fst (query_general_collection sample_world sample_store ''q'' 2) = Inr sample_results \<and>
   fst (query_repo_collection sample_world sample_store ''q'' 2) = Inr sample_results \<and>
   list_all query_result sample_results \<and>
   one_search sample_world sample_store ''pdf_documents'' ''q'' 2 sample_results
     [SimilaritySearch ''PDFCollection'' ''q'' 2] \<and>
   one_search sample_world sample_store ''web_documents'' ''q'' 2 sample_results
     [SimilaritySearch ''WebCollection'' ''q'' 2] \<and>
   one_search sample_world sample_store ''general_knowledge'' ''q'' 2 sample_results
     [SimilaritySearch ''GeneralCollection'' ''q'' 2] \<and>
   one_search sample_world sample_store ''repository_documents'' ''q'' 2 sample_results
     [SimilaritySearch ''RepoCollection'' ''q'' 2]"
proof -
  have p: "query_pdf_collection sample_world sample_store ''q'' 2 =
      (Inr sample_results, [SimilaritySearch ''PDFCollection'' ''q'' 2])"
    by (simp add: query_pdf_collection_def sample_query) (simp add: sample_store_def sample_handle_def)
  have w: "query_web_collection sample_world sample_store ''q'' 2 =
      (Inr sample_results, [SimilaritySearch ''WebCollection'' ''q'' 2])"
    by (simp add: query_web_collection_def sample_query) (simp add: sample_store_def sample_handle_def)
  have g: "query_general_collection sample_world sample_store ''q'' 2 =
      (Inr sample_results, [SimilaritySearch ''GeneralCollection'' ''q'' 2])"
    by (simp add: query_general_collection_def sample_query) (simp add: sample_store_def sample_handle_def)
  have r: "query_repo_collection sample_world sample_store ''q'' 2 =
      (Inr sample_results, [SimilaritySearch ''RepoCollection'' ''q'' 2])"
    by (simp add: query_repo_collection_def sample_query) (simp add: sample_store_def sample_handle_def)
  show ?thesis
    using query_methods_shape [of sample_world sample_store "''q''" 2 sample_results
        sample_results sample_results sample_results]
    by (simp add: p w g r)
qed

section \<open>Deletion (C4)\<close>













section \<open>Construction (C3, C2, C10)\<close>

lemma exec_not_connect: "filter is_connect (map CursorExecute xs) = []"
  by (induction xs) simp_all

lemma exec_not_new: "filter is_new_store (map CursorExecute xs) = []"
  by (induction xs) simp_all

lemma statements_append: "statements (xs @ ys) = statements xs @ statements ys"
  by (induction xs) (simp_all split: option.splits)

lemma statements_exec: "statements (map CursorExecute xs) = xs"
  by (induction xs) simp_all

lemma register_not_connect:
  "filter is_connect (snd (register_stores w conn emb ts (stores, calls))) = filter is_connect calls"
  by (induction ts arbitrary: stores calls) (auto simp: exec_not_connect split: option.splits)

lemma register_calls:
  "register_stores w conn emb ts (stores, calls) = (Inr stores', calls') \<Longrightarrow>
   calls' = calls @ concat (map (\<lambda>(name, table).
      OracleVSNew table ''EUCLIDEAN_DISTANCE'' # map CursorExecute (fst (oraclevs_init w table))) ts)"
proof (induction ts arbitrary: stores calls)
  case Nil
  then show ?case by simp
next
  case (Cons nt ts)
  obtain name table where nt: "nt = (name, table)" by (cases nt)
  show ?case
  proof (cases "snd (oraclevs_init w table)")
    case (Some e)
    with Cons.prems nt show ?thesis by simp
  next
    case None
    with Cons.prems nt have "register_stores w conn emb ts
        (dict_set stores name
           \<lparr>client = conn, embedding_function = emb, table_name = table,
            distance_strategy = ''EUCLIDEAN_DISTANCE''\<rparr>,
         calls @ OracleVSNew table ''EUCLIDEAN_DISTANCE'' #
           map CursorExecute (fst (oraclevs_init w table))) = (Inr stores', calls')"
      by simp
    from Cons.IH [OF this] show ?thesis by (simp add: nt)
  qed
qed

lemma register_handles:
  "register_stores w conn emb collection_tables ([], []) = (Inr stores', calls') \<Longrightarrow>
   stores' =
     [(''pdf_documents'',
          \<lparr>client = conn, embedding_function = emb, table_name = ''PDFCollection'',
           distance_strategy = ''EUCLIDEAN_DISTANCE''\<rparr>),
      (''web_documents'',
          \<lparr>client = conn, embedding_function = emb, table_name = ''WebCollection'',
           distance_strategy = ''EUCLIDEAN_DISTANCE''\<rparr>),
      (''repository_documents'',
          \<lparr>client = conn, embedding_function = emb, table_name = ''RepoCollection'',
           distance_strategy = ''EUCLIDEAN_DISTANCE''\<rparr>),
      (''general_knowledge'',
          \<lparr>client = conn, embedding_function = emb, table_name = ''GeneralCollection'',
           distance_strategy = ''EUCLIDEAN_DISTANCE''\<rparr>)]"
  by (auto simp: collection_tables_def split: option.splits)

lemma embeddings_calls:
  "snd (make_embeddings w credentials e) = [] \<or>
   (\<exists>p. snd (make_embeddings w credentials e) = [OracleEmbeddingsNew p])"
  by (simp add: make_embeddings_def Let_def)

lemma init_connected:
  assumes "load_config w = VDict credentials"
    and "truthy (dict_get credentials ''ORACLE_DB_PASSWORD'' (VStr ''''))"
    and "truthy (dict_get credentials ''ORACLE_DB_DSN'' (VStr ''''))"
  shows "init w e =
     (case db_connect w (connect_kwargs credentials) of
        Some msg \<Rightarrow> (Inl (LibraryError msg), [Connect (connect_kwargs credentials)])
      | None \<Rightarrow>
          (case register_stores w (connect_kwargs credentials)
                  (fst (make_embeddings w credentials e)) collection_tables ([], []) of
             (Inl err, vs_calls) \<Rightarrow>
               (Inl (LibraryError err),
                Connect (connect_kwargs credentials) # snd (make_embeddings w credentials e) @ vs_calls)
           | (Inr stores, vs_calls) \<Rightarrow>
               (Inr \<lparr>connection = connect_kwargs credentials,
                     embeddings = fst (make_embeddings w credentials e),
                     collections = collection_tables,
                     vector_stores = stores\<rparr>,
                Connect (connect_kwargs credentials) # snd (make_embeddings w credentials e) @ vs_calls)))"
  using assms
  by (simp add: init_def Let_def split: option.splits prod.splits sum.splits)

lemma init_refused:
  assumes "load_config w = VDict credentials"
    and "\<not> truthy (dict_get credentials ''ORACLE_DB_PASSWORD'' (VStr '''')) \<or>
         \<not> truthy (dict_get credentials ''ORACLE_DB_DSN'' (VStr ''''))"
  shows "init w e = (Inl (ValueError credentials_error), [])"
  using assms by (auto simp: init_def)

lemma init_shape:
  assumes "load_config w = VDict credentials"
    and "truthy (dict_get credentials ''ORACLE_DB_PASSWORD'' (VStr ''''))"
    and "truthy (dict_get credentials ''ORACLE_DB_DSN'' (VStr ''''))"
  shows "\<exists>rest. snd (init w e) = Connect (connect_kwargs credentials) # rest \<and>
           filter is_connect rest = [] \<and>
           (\<forall>msg. fst (init w e) \<noteq> Inl (ValueError msg))"
proof (cases "db_connect w (connect_kwargs credentials)")
  case (Some msg)
  then show ?thesis by (simp add: init_connected [OF assms])
next
  case None
  obtain r vs_calls where rs: "register_stores w (connect_kwargs credentials)
      (fst (make_embeddings w credentials e)) collection_tables ([], []) = (r, vs_calls)"
    by (cases "register_stores w (connect_kwargs credentials)
      (fst (make_embeddings w credentials e)) collection_tables ([], [])")
  have f: "filter is_connect vs_calls = []"
    using register_not_connect [of w "connect_kwargs credentials"
        "fst (make_embeddings w credentials e)" collection_tables "[]" "[]"] rs
    by simp
  have g: "filter is_connect (snd (make_embeddings w credentials e)) = []"
    using embeddings_calls [of w credentials e] by auto
  show ?thesis
    by (cases r) (simp_all add: init_connected [OF assms] None rs f g)
qed

lemma init_success:
  assumes "init w e = (Inr self, calls)"
  shows "\<exists>conn emb ecalls.
     (ecalls = [] \<or> (\<exists>p. ecalls = [OracleEmbeddingsNew p])) \<and>
     self = \<lparr>connection = conn, embeddings = emb, collections = collection_tables,
             vector_stores =
               [(''pdf_documents'',
                   \<lparr>client = conn, embedding_function = emb, table_name = ''PDFCollection'',
                    distance_strategy = ''EUCLIDEAN_DISTANCE''\<rparr>),
                (''web_documents'',
                   \<lparr>client = conn, embedding_function = emb, table_name = ''WebCollection'',
                    distance_strategy = ''EUCLIDEAN_DISTANCE''\<rparr>),
                (''repository_documents'',
                   \<lparr>client = conn, embedding_function = emb, table_name = ''RepoCollection'',
                    distance_strategy = ''EUCLIDEAN_DISTANCE''\<rparr>),
                (''general_knowledge'',
                   \<lparr>client = conn, embedding_function = emb, table_name = ''GeneralCollection'',
                    distance_strategy = ''EUCLIDEAN_DISTANCE''\<rparr>)]\<rparr> \<and>
     calls = Connect conn # ecalls @ concat (map (\<lambda>(name, table).
        OracleVSNew table ''EUCLIDEAN_DISTANCE'' # map CursorExecute (fst (oraclevs_init w table)))
        collection_tables)"
proof (cases "load_config w")
  case (VDict credentials)
  show ?thesis
  proof (cases "truthy (dict_get credentials ''ORACLE_DB_PASSWORD'' (VStr '''')) \<and>
                truthy (dict_get credentials ''ORACLE_DB_DSN'' (VStr ''''))")
    case True
    note i = init_connected [OF VDict conjunct1 [OF True] conjunct2 [OF True], of e]
    show ?thesis
    proof (cases "db_connect w (connect_kwargs credentials)")
      case (Some msg)
      with i assms show ?thesis by simp
    next
      case None
      obtain r vs_calls where rs: "register_stores w (connect_kwargs credentials)
          (fst (make_embeddings w credentials e)) collection_tables ([], []) = (r, vs_calls)"
        by (cases "register_stores w (connect_kwargs credentials)
          (fst (make_embeddings w credentials e)) collection_tables ([], [])")
      show ?thesis
      proof (cases r)
        case (Inl err)
        with i assms None rs show ?thesis by simp
      next
        case (Inr stores)
        from rs Inr have rs': "register_stores w (connect_kwargs credentials)
          (fst (make_embeddings w credentials e)) collection_tables ([], []) = (Inr stores, vs_calls)"
          by simp
        from i assms None rs' have
          s: "self = \<lparr>connection = connect_kwargs credentials,
                embeddings = fst (make_embeddings w credentials e),
                collections = collection_tables, vector_stores = stores\<rparr>"
          and c: "calls = Connect (connect_kwargs credentials) #
                snd (make_embeddings w credentials e) @ vs_calls"
          by simp_all
        note h = register_handles [OF rs']
        have v: "vs_calls = concat (map (\<lambda>(name, table).
            OracleVSNew table ''EUCLIDEAN_DISTANCE'' # map CursorExecute (fst (oraclevs_init w table)))
            collection_tables)"
          using register_calls [OF rs'] by simp
        show ?thesis
          apply (rule exI [of _ "connect_kwargs credentials"])
          apply (rule exI [of _ "fst (make_embeddings w credentials e)"])
          apply (rule exI [of _ "snd (make_embeddings w credentials e)"])
          apply (intro conjI)
            apply (rule embeddings_calls)
           apply (simp only: s h)
          apply (simp only: c v)
          done
      qed
    qed
  next
    case False
    then have "init w e = (Inl (ValueError credentials_error), [])"
      using init_refused [OF VDict] by blast
    with assms show ?thesis by simp
  qed
qed (use assms in \<open>simp_all add: init_def\<close>)

text \<open>
  C3, as amended. A store that the constructor returns declares exactly the four
  collection names \<^verbatim>\<open>pdf_documents\<close>, \<^verbatim>\<open>web_documents\<close>, \<^verbatim>\<open>repository_documents\<close> and
  \<^verbatim>\<open>general_knowledge\<close>, each with its own table name, and holds one vector-store handle
  per collection, bound to that table, no two handles the same. The constructor
  constructs the four handles and sends no SQL statement of its own: the statements sent
  during construction are exactly those that the library's handle constructor sends for
  the four tables, in order.
\<close>

theorem init_four_collections:
  assumes "init w e = (Inr self, calls)"
  shows "collections self =
       [(''pdf_documents'', ''PDFCollection''), (''web_documents'', ''WebCollection''),
        (''repository_documents'', ''RepoCollection''), (''general_knowledge'', ''GeneralCollection'')] \<and>
     distinct (map snd (collections self)) \<and>
     map (\<lambda>(name, store). (name, table_name store)) (vector_stores self) = collections self \<and>
     distinct (map snd (vector_stores self)) \<and>
     filter is_new_store calls =
       [OracleVSNew ''PDFCollection'' ''EUCLIDEAN_DISTANCE'',
        OracleVSNew ''WebCollection'' ''EUCLIDEAN_DISTANCE'',
        OracleVSNew ''RepoCollection'' ''EUCLIDEAN_DISTANCE'',
        OracleVSNew ''GeneralCollection'' ''EUCLIDEAN_DISTANCE''] \<and>
     statements calls =
       concat (map (\<lambda>(name, table). fst (oraclevs_init w table)) (collections self))"
proof -
  from init_success [OF assms] obtain conn emb ecalls where
    e: "ecalls = [] \<or> (\<exists>p. ecalls = [OracleEmbeddingsNew p])"
    and s: "self = \<lparr>connection = conn, embeddings = emb, collections = collection_tables,
             vector_stores =
               [(''pdf_documents'',
                   \<lparr>client = conn, embedding_function = emb, table_name = ''PDFCollection'',
                    distance_strategy = ''EUCLIDEAN_DISTANCE''\<rparr>),
                (''web_documents'',
                   \<lparr>client = conn, embedding_function = emb, table_name = ''WebCollection'',
                    distance_strategy = ''EUCLIDEAN_DISTANCE''\<rparr>),
                (''repository_documents'',
                   \<lparr>client = conn, embedding_function = emb, table_name = ''RepoCollection'',
                    distance_strategy = ''EUCLIDEAN_DISTANCE''\<rparr>),
                (''general_knowledge'',
                   \<lparr>client = conn, embedding_function = emb, table_name = ''GeneralCollection'',
                    distance_strategy = ''EUCLIDEAN_DISTANCE''\<rparr>)]\<rparr>"
    and c: "calls = Connect conn # ecalls @ concat (map (\<lambda>(name, table).
        OracleVSNew table ''EUCLIDEAN_DISTANCE'' # map CursorExecute (fst (oraclevs_init w table)))
        collection_tables)"
    by (elim exE conjE)
  have c1: "collections self =
       [(''pdf_documents'', ''PDFCollection''), (''web_documents'', ''WebCollection''),
        (''repository_documents'', ''RepoCollection''), (''general_knowledge'', ''GeneralCollection'')]"
    by (simp add: s collection_tables_def)
  have c2: "distinct (map snd (collections self))" by (simp add: c1)
  have c3: "map (\<lambda>(name, store). (name, table_name store)) (vector_stores self) = collections self"
    by (simp add: c1) (simp add: s)
  have c4: "distinct (map snd (vector_stores self))"
    by (simp add: s)
  have c5: "filter is_new_store calls =
       [OracleVSNew ''PDFCollection'' ''EUCLIDEAN_DISTANCE'',
        OracleVSNew ''WebCollection'' ''EUCLIDEAN_DISTANCE'',
        OracleVSNew ''RepoCollection'' ''EUCLIDEAN_DISTANCE'',
        OracleVSNew ''GeneralCollection'' ''EUCLIDEAN_DISTANCE'']"
    using e by (auto simp: c collection_tables_def exec_not_new)
  have c6: "statements calls =
       concat (map (\<lambda>(name, table). fst (oraclevs_init w table)) (collections self))"
    using e by (auto simp: c c1 collection_tables_def statements_append statements_exec)
  show ?thesis
    apply (intro conjI)
         apply (rule c1)
        apply (rule c2)
       apply (rule c3)
      apply (rule c4)
     apply (rule c5)
    apply (rule c6)
    done
qed

lemma library_init: "init library_world VNone = (Inr sample_store, library_calls)"
proof -
  have l: "load_config library_world = VDict sample_credentials"
    by (simp add: load_config_def library_world_def sample_world_def sample_credentials_def)
  have k: "connect_kwargs sample_credentials = sample_conn"
    by (simp add: connect_kwargs_def sample_credentials_def dict_get_def sample_conn_def)
  have m: "make_embeddings library_world sample_credentials VNone =
      (OracleEmbeddings default_embed_params, [OracleEmbeddingsNew default_embed_params])"
    by (simp add: make_embeddings_def sample_credentials_def dict_get_def default_embed_params_def
        Let_def)
  have d: "db_connect library_world sample_conn = None"
    by (simp add: library_world_def sample_world_def)
  have o: "oraclevs_init library_world table =
      ([''SELECT COUNT(*) FROM '' @ table, create_table_sql table], None)" for table
    by (simp add: library_world_def)
  have r: "register_stores library_world sample_conn (OracleEmbeddings default_embed_params)
      collection_tables ([], []) = (Inr (vector_stores sample_store), drop 2 library_calls)"
    by (simp add: collection_tables_def o sample_store_def sample_handle_def library_calls_def)
  have "init library_world VNone =
     (case db_connect library_world (connect_kwargs sample_credentials) of
        Some msg \<Rightarrow> (Inl (LibraryError msg), [Connect (connect_kwargs sample_credentials)])
      | None \<Rightarrow>
          (case register_stores library_world (connect_kwargs sample_credentials)
                  (fst (make_embeddings library_world sample_credentials VNone)) collection_tables ([], []) of
             (Inl err, vs_calls) \<Rightarrow>
               (Inl (LibraryError err),
                Connect (connect_kwargs sample_credentials) #
                snd (make_embeddings library_world sample_credentials VNone) @ vs_calls)
           | (Inr stores, vs_calls) \<Rightarrow>
               (Inr \<lparr>connection = connect_kwargs sample_credentials,
                     embeddings = fst (make_embeddings library_world sample_credentials VNone),
                     collections = collection_tables,
                     vector_stores = stores\<rparr>,
                Connect (connect_kwargs sample_credentials) #
                snd (make_embeddings library_world sample_credentials VNone) @ vs_calls)))"
    by (rule init_connected [OF l]) (simp_all add: sample_credentials_def dict_get_def)
  then show ?thesis
    by (simp add: k m d r) (simp add: sample_store_def library_calls_def)
qed

theorem init_four_collections_witness:
  "init library_world VNone = (Inr sample_store, library_calls) \<and>
   map fst (collections sample_store) =
     [''pdf_documents'', ''web_documents'', ''repository_documents'', ''general_knowledge''] \<and>
   map snd (collections sample_store) =
     [''PDFCollection'', ''WebCollection'', ''RepoCollection'', ''GeneralCollection''] \<and>
   map (\<lambda>(name, store). (name, table_name store)) (vector_stores sample_store) =
     collections sample_store \<and>
   filter is_new_store library_calls = store_calls \<and>
   statements library_calls =
     concat (map (\<lambda>(name, table). fst (oraclevs_init library_world table))
       (collections sample_store))"
  using init_four_collections [OF library_init]
  by (simp add: library_init store_calls_def)

text \<open>
  Against C3 as first stated (no statement creating the underlying tables is issued):
  with a client library whose handle constructor creates the table it is given, the
  constructor of the store does send statements that create the underlying tables.
\<close>

theorem init_creates_tables:
  "fst (init library_world VNone) = Inr sample_store \<and>
   statements (snd (init library_world VNone)) =
     [''SELECT COUNT(*) FROM PDFCollection'', create_table_sql ''PDFCollection'',
      ''SELECT COUNT(*) FROM WebCollection'', create_table_sql ''WebCollection'',
      ''SELECT COUNT(*) FROM RepoCollection'', create_table_sql ''RepoCollection'',
      ''SELECT COUNT(*) FROM GeneralCollection'', create_table_sql ''GeneralCollection''] \<and>
   take 27 (create_table_sql ''PDFCollection'') = ''CREATE TABLE PDFCollection ''"
  by (simp add: library_init) (simp add: library_calls_def create_table_sql_def)

lemma typed_falsy:
  "text_or_absent (map_of d key) \<Longrightarrow>
   (\<not> truthy (dict_get d key VNone)) = empty_or_missing (map_of d key)"
  "text_or_absent (map_of d key) \<Longrightarrow>
   (\<not> truthy (dict_get d key (VStr ''''))) = empty_or_missing (map_of d key)"
  by (cases "map_of d key" rule: text_or_absent.cases; simp add: dict_get_def)+

lemma store_calls_not_connect: "filter is_connect store_calls = []"
  by (simp add: store_calls_def)

lemma embeddings_not_connect: "filter is_connect (snd (make_embeddings w credentials e)) = []"
  by (simp add: make_embeddings_def Let_def)

lemma loaded_config:
  "config_yaml w = Loaded (VDict credentials) \<Longrightarrow> load_config w = VDict credentials"
  by (simp add: load_config_def)

text \<open>
  C2. The constructor takes user name, password, DSN and wallet path from the mapping in
  \<^verbatim>\<open>config.yaml\<close>. Once password and DSN are there, it makes exactly one connection
  attempt: with user, password and dsn only when the wallet path is absent or empty, and
  with config_dir, wallet_location (both the wallet path) and wallet_password in addition
  when a wallet path is present.
\<close>

theorem init_connection_paths:
  assumes "config_yaml w = Loaded (VDict credentials)"
    and "truthy (dict_get credentials ''ORACLE_DB_PASSWORD'' (VStr ''''))"
    and "truthy (dict_get credentials ''ORACLE_DB_DSN'' (VStr ''''))"
    and "text_or_absent (map_of credentials ''ORACLE_DB_WALLET_LOCATION'')"
  shows "filter is_connect (snd (init w e)) =
     [Connect
        (if empty_or_missing (map_of credentials ''ORACLE_DB_WALLET_LOCATION'')
         then [(''user'', dict_get credentials ''ORACLE_DB_USERNAME'' (VStr ''ADMIN'')),
               (''password'', dict_get credentials ''ORACLE_DB_PASSWORD'' (VStr '''')),
               (''dsn'', dict_get credentials ''ORACLE_DB_DSN'' (VStr ''''))]
         else [(''user'', dict_get credentials ''ORACLE_DB_USERNAME'' (VStr ''ADMIN'')),
               (''password'', dict_get credentials ''ORACLE_DB_PASSWORD'' (VStr '''')),
               (''dsn'', dict_get credentials ''ORACLE_DB_DSN'' (VStr '''')),
               (''config_dir'', dict_get credentials ''ORACLE_DB_WALLET_LOCATION'' VNone),
               (''wallet_location'', dict_get credentials ''ORACLE_DB_WALLET_LOCATION'' VNone),
               (''wallet_password'', dict_get credentials ''ORACLE_DB_WALLET_PASSWORD'' VNone)])]"
proof -
  have l: "load_config w = VDict credentials"
    using assms(1) by (rule loaded_config)
  have k: "connect_kwargs credentials =
        (if empty_or_missing (map_of credentials ''ORACLE_DB_WALLET_LOCATION'')
         then [(''user'', dict_get credentials ''ORACLE_DB_USERNAME'' (VStr ''ADMIN'')),
               (''password'', dict_get credentials ''ORACLE_DB_PASSWORD'' (VStr '''')),
               (''dsn'', dict_get credentials ''ORACLE_DB_DSN'' (VStr ''''))]
         else [(''user'', dict_get credentials ''ORACLE_DB_USERNAME'' (VStr ''ADMIN'')),
               (''password'', dict_get credentials ''ORACLE_DB_PASSWORD'' (VStr '''')),
               (''dsn'', dict_get credentials ''ORACLE_DB_DSN'' (VStr '''')),
               (''config_dir'', dict_get credentials ''ORACLE_DB_WALLET_LOCATION'' VNone),
               (''wallet_location'', dict_get credentials ''ORACLE_DB_WALLET_LOCATION'' VNone),
               (''wallet_password'', dict_get credentials ''ORACLE_DB_WALLET_PASSWORD'' VNone)])"
    using typed_falsy(1) [OF assms(4)] by (simp add: connect_kwargs_def Let_def)
  from init_shape [OF l assms(2) assms(3), of e] obtain rest where
    r: "snd (init w e) = Connect (connect_kwargs credentials) # rest"
    and f: "filter is_connect rest = []"
    by (elim exE conjE)
  have "filter is_connect (snd (init w e)) = [Connect (connect_kwargs credentials)]"
    by (simp add: r f)
  then show ?thesis by (simp only: k)
qed

lemma wallet_config: "config_yaml wallet_world =
    Loaded (VDict [(''ORACLE_DB_PASSWORD'', VStr ''secret''), (''ORACLE_DB_DSN'', VStr ''db_high''),
      (''ORACLE_DB_WALLET_LOCATION'', VStr ''/opt/wallet''),
      (''ORACLE_DB_WALLET_PASSWORD'', VStr ''w'')])"
  by (simp add: wallet_world_def sample_world_def sample_credentials_def)

lemma sample_config: "config_yaml sample_world =
    Loaded (VDict [(''ORACLE_DB_PASSWORD'', VStr ''secret''), (''ORACLE_DB_DSN'', VStr ''db_high'')])"
  by (simp add: sample_world_def sample_credentials_def)

theorem init_connection_paths_witness:
  "filter is_connect (snd (init sample_world VNone)) =
     [Connect [(''user'', VStr ''ADMIN''), (''password'', VStr ''secret''), (''dsn'', VStr ''db_high'')]] \<and>
   filter is_connect (snd (init wallet_world VNone)) =
     [Connect [(''user'', VStr ''ADMIN''), (''password'', VStr ''secret''), (''dsn'', VStr ''db_high''),
        (''config_dir'', VStr ''/opt/wallet''), (''wallet_location'', VStr ''/opt/wallet''),
        (''wallet_password'', VStr ''w'')]]"
proof -
  have a: "filter is_connect (snd (init sample_world VNone)) =
     [Connect [(''user'', VStr ''ADMIN''), (''password'', VStr ''secret''), (''dsn'', VStr ''db_high'')]]"
    using init_connection_paths [OF sample_config, of VNone] by (simp add: dict_get_def)
  have b: "filter is_connect (snd (init wallet_world VNone)) =
     [Connect [(''user'', VStr ''ADMIN''), (''password'', VStr ''secret''), (''dsn'', VStr ''db_high''),
        (''config_dir'', VStr ''/opt/wallet''), (''wallet_location'', VStr ''/opt/wallet''),
        (''wallet_password'', VStr ''w'')]]"
    using init_connection_paths [OF wallet_config, of VNone] by (simp add: dict_get_def)
  show ?thesis using a b by simp
qed

text \<open>
  C10. With a configuration mapping whose password and DSN entries are absent, null or
  strings, the constructor raises a ValueError exactly when the password or the DSN is
  empty or missing, and then it has made no call at all, so no connection was attempted.
  A missing user name is no error: with password and DSN present the connection is
  attempted with user \<^verbatim>\<open>ADMIN\<close>.
\<close>

theorem init_credentials_check:
  assumes "load_config w = VDict credentials"
    and "text_or_absent (map_of credentials ''ORACLE_DB_PASSWORD'')"
    and "text_or_absent (map_of credentials ''ORACLE_DB_DSN'')"
  shows "((\<exists>msg. fst (init w e) = Inl (ValueError msg)) =
          (empty_or_missing (map_of credentials ''ORACLE_DB_PASSWORD'') \<or>
           empty_or_missing (map_of credentials ''ORACLE_DB_DSN''))) \<and>
     ((\<exists>msg. fst (init w e) = Inl (ValueError msg)) \<longrightarrow> snd (init w e) = []) \<and>
     (map_of credentials ''ORACLE_DB_USERNAME'' = None \<and>
      \<not> empty_or_missing (map_of credentials ''ORACLE_DB_PASSWORD'') \<and>
      \<not> empty_or_missing (map_of credentials ''ORACLE_DB_DSN'') \<longrightarrow>
        (\<exists>kwargs rest. snd (init w e) = Connect kwargs # rest \<and>
           map_of kwargs ''user'' = Some (VStr ''ADMIN'')))"
proof (cases "empty_or_missing (map_of credentials ''ORACLE_DB_PASSWORD'') \<or>
              empty_or_missing (map_of credentials ''ORACLE_DB_DSN'')")
  case True
  then have "\<not> truthy (dict_get credentials ''ORACLE_DB_PASSWORD'' (VStr '''')) \<or>
         \<not> truthy (dict_get credentials ''ORACLE_DB_DSN'' (VStr ''''))"
    using typed_falsy(2) [OF assms(2)] typed_falsy(2) [OF assms(3)] by simp
  then have "init w e = (Inl (ValueError credentials_error), [])"
    by (rule init_refused [OF assms(1)])
  with True show ?thesis by simp
next
  case False
  then have p: "truthy (dict_get credentials ''ORACLE_DB_PASSWORD'' (VStr ''''))"
    and d: "truthy (dict_get credentials ''ORACLE_DB_DSN'' (VStr ''''))"
    using typed_falsy(2) [OF assms(2)] typed_falsy(2) [OF assms(3)] by auto
  from init_shape [OF assms(1) p d, of e] obtain rest where
    r: "snd (init w e) = Connect (connect_kwargs credentials) # rest"
    and nv': "\<forall>msg. fst (init w e) \<noteq> Inl (ValueError msg)"
    by (elim exE conjE)
  have nv: "\<not> (\<exists>msg. fst (init w e) = Inl (ValueError msg))"
    using nv' by simp
  have u: "map_of (connect_kwargs credentials) ''user'' = Some (VStr ''ADMIN'')"
    if "map_of credentials ''ORACLE_DB_USERNAME'' = None"
    using that by (simp add: connect_kwargs_def Let_def dict_get_def)
  have c: "\<exists>rest. snd (init w e) = Connect (connect_kwargs credentials) # rest"
    using r by simp
  from False nv u c show ?thesis by blast
qed

lemma no_config: "load_config no_config_world = VDict []"
  by (simp add: load_config_def no_config_world_def)

lemma sample_loaded: "load_config sample_world =
    VDict [(''ORACLE_DB_PASSWORD'', VStr ''secret''), (''ORACLE_DB_DSN'', VStr ''db_high'')]"
  by (simp add: load_config_def sample_world_def sample_credentials_def)

theorem init_credentials_check_witness:
  "load_config no_config_world = VDict [] \<and>
   (\<exists>msg. fst (init no_config_world VNone) = Inl (ValueError msg)) \<and>
   snd (init no_config_world VNone) = [] \<and>
   (\<exists>kwargs rest. snd (init sample_world VNone) = Connect kwargs # rest \<and>
      map_of kwargs ''user'' = Some (VStr ''ADMIN''))"
proof -
  have a: "(\<exists>msg. fst (init no_config_world VNone) = Inl (ValueError msg)) \<and>
      snd (init no_config_world VNone) = []"
    using init_credentials_check [OF no_config, of VNone] by simp
  have b: "\<exists>kwargs rest. snd (init sample_world VNone) = Connect kwargs # rest \<and>
      map_of kwargs ''user'' = Some (VStr ''ADMIN'')"
    using init_credentials_check [OF sample_loaded, of VNone] by simp
  show ?thesis using a b no_config by blast
qed

section \<open>Path validation in the menus (C7)\<close>

lemma io_then_quiet:
  "filter is_subprocess (snd a) = [] \<Longrightarrow> filter is_subprocess (snd b) = [] \<Longrightarrow>
   filter is_subprocess (snd (io_then a b)) = []"
  by (simp add: io_then_def split: sum.splits)

lemma print_quiet: "filter is_subprocess (snd (console_print sh text)) = []"
  by (simp add: console_print_def split: option.splits)

lemma panel_quiet: "filter is_subprocess (snd (console_panel sh text)) = []"
  by (simp add: console_panel_def split: option.splits)

lemma header_quiet: "filter is_subprocess (snd (print_header sh)) = []"
  by (simp add: print_header_def clear_screen_def emit_def io_then_quiet print_quiet panel_quiet)

lemma missing_path_runs_nothing:
  assumes "path_at sh entered = Missing"
  shows "filter is_subprocess (snd (menu_process_pdfs sh ''1'' output_file entered)) = []"
    and "filter is_subprocess (snd (menu_process_pdfs sh ''2'' output_file entered)) = []"
    and "filter is_subprocess (snd (menu_process_websites sh ''2'' output_file entered)) = []"
    and "filter is_subprocess (snd (menu_manage_vector_store sh ''1'' entered)) = []"
    and "filter is_subprocess (snd (menu_manage_vector_store sh ''2'' entered)) = []"
  using assms
  by (simp_all add: menu_process_pdfs_def menu_process_websites_def menu_manage_vector_store_def
      path_exists_def path_isdir_def emit_def press_enter_def io_then_quiet print_quiet header_quiet)

lemma tag_header:
  "print_header tag_shell =
     (Inr (), [OsSystem ''clear'', ConsolePanel title,
               ConsolePrint (''[dim]Working Directory: /app[/dim]'' @ [CHR 0x0A])])"
  by (simp add: print_header_def clear_screen_def emit_def io_then_def console_print_def
      console_panel_def tag_shell_def missing_shell_def title_def)

lemma plain_header:
  "print_header missing_shell =
     (Inr (), [OsSystem ''clear'', ConsolePanel title,
               ConsolePrint (''[dim]Working Directory: /app[/dim]'' @ [CHR 0x0A])])"
  by (simp add: print_header_def clear_screen_def emit_def io_then_def console_print_def
      console_panel_def missing_shell_def)

text \<open>
  C7 says that every path-taking menu option, given a path that does not exist, prints an
  error and returns without launching a subprocess. The menus paste the entered path into
  console markup. With the missing path \<^verbatim>\<open>nope.pdf\<close> the PDF option prints the message,
  waits for Enter and returns. With the missing path \<^verbatim>\<open>[/x].json\<close> the console rejects
  the message: nothing is printed after the path prompt, the wait for Enter is not
  reached, and the markup error leaves the menu instead of a return. The same happens in
  the URLs-file and chunks-file options.
\<close>

theorem missing_path_with_tag_raises:
  "path_at missing_shell ''nope.pdf'' = Missing \<and>
   menu_process_pdfs missing_shell ''1'' ''chunks.json'' ''nope.pdf'' =
     (Inr (),
      [OsSystem ''clear'', ConsolePanel title,
       ConsolePrint (''[dim]Working Directory: /app[/dim]'' @ [CHR 0x0A]),
       ConsolePrint ''[bold yellow]PDF Processor[/bold yellow]'',
       ConsolePrint ''1. Process a single PDF file'',
       ConsolePrint ''2. Process all PDFs in a directory'',
       ConsolePrint ''3. Process a PDF from URL'',
       ConsolePrint ''0. Back to Main Menu'',
       PromptAsk ''Select option'',
       PromptAsk ''Output JSON file path'',
       PromptAsk ''Enter path to PDF file'',
       ConsolePrint ''[red]File not found: nope.pdf[/red]'',
       InputWait ''Press Enter to continue...'']) \<and>
   path_at tag_shell ''[/x].json'' = Missing \<and>
   menu_process_pdfs tag_shell ''1'' ''chunks.json'' ''[/x].json'' =
     (Inl ''closing tag [/x] at position 21 does not match any open tag'',
      [OsSystem ''clear'', ConsolePanel title,
       ConsolePrint (''[dim]Working Directory: /app[/dim]'' @ [CHR 0x0A]),
       ConsolePrint ''[bold yellow]PDF Processor[/bold yellow]'',
       ConsolePrint ''1. Process a single PDF file'',
       ConsolePrint ''2. Process all PDFs in a directory'',
       ConsolePrint ''3. Process a PDF from URL'',
       ConsolePrint ''0. Back to Main Menu'',
       PromptAsk ''Select option'',
       PromptAsk ''Output JSON file path'',
       PromptAsk ''Enter path to PDF file'']) \<and>
   menu_process_websites tag_shell ''2'' ''web.json'' ''[/x].json'' =
     (Inl ''closing tag [/x] at position 21 does not match any open tag'',
      [OsSystem ''clear'', ConsolePanel title,
       ConsolePrint (''[dim]Working Directory: /app[/dim]'' @ [CHR 0x0A]),
       ConsolePrint ''[bold yellow]Website Processor[/bold yellow]'',
       ConsolePrint ''1. Process a single website URL'',
       ConsolePrint ''2. Process multiple URLs from a file'',
       ConsolePrint ''0. Back to Main Menu'',
       PromptAsk ''Select option'',
       PromptAsk ''Output JSON file path'',
       PromptAsk ''Enter URLs file path'']) \<and>
   menu_manage_vector_store tag_shell ''1'' ''[/x].json'' =
     (Inl ''closing tag [/x] at position 21 does not match any open tag'',
      [OsSystem ''clear'', ConsolePanel title,
       ConsolePrint (''[dim]Working Directory: /app[/dim]'' @ [CHR 0x0A]),
       ConsolePrint ''[bold yellow]Manage Vector Store[/bold yellow]'',
       ConsolePrint ''1. Add PDF chunks to vector store'',
       ConsolePrint ''2. Add Web chunks to vector store'',
       ConsolePrint ''3. Query vector store directly'',
       ConsolePrint ''0. Back to Main Menu'',
       PromptAsk ''Select option'',
       PromptAsk ''Enter chunks JSON file''])"
proof -
  have m: "markup_error missing_shell s = None" "path_at missing_shell p = Missing" for s p
    by (simp_all add: missing_shell_def)
  have t: "markup_error tag_shell s =
      (if s = ''[red]File not found: [/x].json[/red]''
       then Some ''closing tag [/x] at position 21 does not match any open tag'' else None)"
    "path_at tag_shell p = Missing" for s p
    by (simp_all add: tag_shell_def missing_shell_def)
  have a: "menu_process_pdfs missing_shell ''1'' ''chunks.json'' ''nope.pdf'' =
     (Inr (),
      [OsSystem ''clear'', ConsolePanel title,
       ConsolePrint (''[dim]Working Directory: /app[/dim]'' @ [CHR 0x0A]),
       ConsolePrint ''[bold yellow]PDF Processor[/bold yellow]'',
       ConsolePrint ''1. Process a single PDF file'',
       ConsolePrint ''2. Process all PDFs in a directory'',
       ConsolePrint ''3. Process a PDF from URL'',
       ConsolePrint ''0. Back to Main Menu'',
       PromptAsk ''Select option'',
       PromptAsk ''Output JSON file path'',
       PromptAsk ''Enter path to PDF file'',
       ConsolePrint ''[red]File not found: nope.pdf[/red]'',
       InputWait ''Press Enter to continue...''])"
    by (simp add: menu_process_pdfs_def plain_header path_exists_def m emit_def io_then_def
        console_print_def not_found_file_def press_enter_def)
  have b: "menu_process_pdfs tag_shell ''1'' ''chunks.json'' ''[/x].json'' =
     (Inl ''closing tag [/x] at position 21 does not match any open tag'',
      [OsSystem ''clear'', ConsolePanel title,
       ConsolePrint (''[dim]Working Directory: /app[/dim]'' @ [CHR 0x0A]),
       ConsolePrint ''[bold yellow]PDF Processor[/bold yellow]'',
       ConsolePrint ''1. Process a single PDF file'',
       ConsolePrint ''2. Process all PDFs in a directory'',
       ConsolePrint ''3. Process a PDF from URL'',
       ConsolePrint ''0. Back to Main Menu'',
       PromptAsk ''Select option'',
       PromptAsk ''Output JSON file path'',
       PromptAsk ''Enter path to PDF file''])"
    by (simp add: menu_process_pdfs_def tag_header path_exists_def t emit_def io_then_def
        console_print_def not_found_file_def press_enter_def)
  have c: "menu_process_websites tag_shell ''2'' ''web.json'' ''[/x].json'' =
     (Inl ''closing tag [/x] at position 21 does not match any open tag'',
      [OsSystem ''clear'', ConsolePanel title,
       ConsolePrint (''[dim]Working Directory: /app[/dim]'' @ [CHR 0x0A]),
       ConsolePrint ''[bold yellow]Website Processor[/bold yellow]'',
       ConsolePrint ''1. Process a single website URL'',
       ConsolePrint ''2. Process multiple URLs from a file'',
       ConsolePrint ''0. Back to Main Menu'',
       PromptAsk ''Select option'',
       PromptAsk ''Output JSON file path'',
       PromptAsk ''Enter URLs file path''])"
    by (simp add: menu_process_websites_def tag_header path_exists_def t emit_def io_then_def
        console_print_def not_found_file_def press_enter_def)
  have d: "menu_manage_vector_store tag_shell ''1'' ''[/x].json'' =
     (Inl ''closing tag [/x] at position 21 does not match any open tag'',
      [OsSystem ''clear'', ConsolePanel title,
       ConsolePrint (''[dim]Working Directory: /app[/dim]'' @ [CHR 0x0A]),
       ConsolePrint ''[bold yellow]Manage Vector Store[/bold yellow]'',
       ConsolePrint ''1. Add PDF chunks to vector store'',
       ConsolePrint ''2. Add Web chunks to vector store'',
       ConsolePrint ''3. Query vector store directly'',
       ConsolePrint ''0. Back to Main Menu'',
       PromptAsk ''Select option'',
       PromptAsk ''Enter chunks JSON file''])"
    by (simp add: menu_manage_vector_store_def tag_header path_exists_def t emit_def io_then_def
        console_print_def not_found_file_def press_enter_def)
  show ?thesis
    apply (intro conjI)
        apply (rule m(2))
       apply (rule a)
      apply (rule t(2))
     apply (rule b)
    apply (rule c)
    apply (rule d)
    done
qed

section \<open>The latest chunk (C6)\<close>

text \<open>
  C6 says that \<open>get_latest_chunk\<close> returns the most recently added chunk of a non-empty
  collection. The query it sends takes the first row of a scan without any order. On a
  table whose scan gives the older of two rows first, the result is the older row, while
  the most recently added row is the other one.
\<close>

theorem get_latest_chunk_returns_older:
  "get_latest_chunk two_row_world sample_store ''pdf_documents'' =
     ([(''content'', VStr ''added first''), (''metadata'', VStr ''{}'')],
      [CursorNew, CursorExecute ''SELECT text, metadata FROM PDFCollection WHERE ROWNUM <= 1'',
       CursorFetchone, CursorClose]) \<and>
   map_option row_text (most_recent two_rows) = Some ''added last''"
  by (simp add: get_latest_chunk_def two_row_world_def database_world_def sample_world_def
      sample_store_def collection_tables_def first_row_sql_def two_rows_def)

end
